theory Spec2Isabelle
  imports
    Main
    "HOL-Library.Word"
    "HOL-Library.AList"
    "HOL-Library.Extended_Nat"
    "HOL-Library.Char_ord"
    "HOL-Library.List_Lexorder"
    "HOL-Library.Multiset"
begin

unbundle bit_operations_syntax

section \<open>Delta-sync core of quorum-shared: data model\<close>

text \<open>
  The development embeds the sync utilities (\<^verbatim>\<open>sync/utils\<close>: hashing, digests, diffs,
  delta building, chunking) and the \<^verbatim>\<open>SyncService\<close> class (\<^verbatim>\<open>sync/service\<close>: payload
  cache, sessions, sync request, sync delta, delta application).

  Conventions of the embedding:
  \<^item> identifiers and hashes are \<open>string\<close>s (byte strings, read as UTF-8);
  \<^item> timestamps and counts are \<open>nat\<close> (milliseconds since epoch); the one place where
    the code stores \<^verbatim>\<open>Infinity\<close> (the running minimum of the timestamp loops) is typed
    \<open>enat\<close>, and so is every field that receives that value;
  \<^item> an optional field \<^verbatim>\<open>f?: T\<close> is a \<open>T option\<close>;
  \<^item> field names carry a short prefix of their interface, because several interfaces of
    the source share field names (\<^verbatim>\<open>spaceId\<close>, \<^verbatim>\<open>messageId\<close>, ...);
  \<^item> a number is a \<open>nat\<close> standing for an integer-valued double; its rendering in a
    string (\<open>decimal\<close>) is the one of JavaScript for integers below \<open>10^21\<close>, where
    JavaScript switches to exponent notation;
  \<^item> the external SHA-256 of \<^verbatim>\<open>@noble/hashes\<close>, composed with \<^verbatim>\<open>TextEncoder.encode\<close>,
    is a parameter \<open>sha :: string \<Rightarrow> byte list\<close>;
  \<^item> the size measure of the chunking loop is a parameter \<open>sz :: Message \<Rightarrow> nat\<close>; the
    code runs the loop with \<^verbatim>\<open>JSON.stringify(msg).length\<close>, which is \<open>jsonLength\<close> below.
\<close>

type_synonym byte = "8 word"

subsection \<open>Message types (types/message.ts)\<close>

datatype TextValue = TextString string | TextArray "string list"

datatype MuteAction = ActMute | ActUnmute

datatype PinAction = ActPin | ActUnpin

text \<open>
  The tagged union \<^verbatim>\<open>MessageContent\<close>. Constructor arguments follow the field order of
  the source types. \<open>UnknownContent senderId type\<close> is a run-time content object whose
  \<^verbatim>\<open>type\<close> tag is none of the fifteen declared ones (the static type excludes it, a
  payload decoded from the wire does not).
\<close>

datatype MessageContent =
    PostMessage string TextValue "string option"
      \<comment> \<open>senderId, text, repliesToMessageId\<close>
  | UpdateProfileMessage string string string
      \<comment> \<open>senderId, displayName, userIcon\<close>
  | RemoveMessage string string
      \<comment> \<open>senderId, removeMessageId\<close>
  | EventMessage string string "string option"
      \<comment> \<open>senderId, text, repliesToMessageId\<close>
  | EmbedMessage string "string option" "string option" "string option"
      "string option" "string option" "bool option" "string option"
      \<comment> \<open>senderId, imageUrl, thumbnailUrl, videoUrl, width, height, isLargeGif,
          repliesToMessageId\<close>
  | ReactionMessage string string string
      \<comment> \<open>senderId, reaction, messageId\<close>
  | RemoveReactionMessage string string string
      \<comment> \<open>senderId, reaction, messageId\<close>
  | JoinMessage string
  | LeaveMessage string
  | KickMessage string
  | MuteMessage string string string nat MuteAction "nat option"
      \<comment> \<open>senderId, targetUserId, muteId, timestamp, action, duration\<close>
  | StickerMessage string string "string option"
      \<comment> \<open>senderId, stickerId, repliesToMessageId\<close>
  | PinMessage string string PinAction
      \<comment> \<open>senderId, targetMessageId, action\<close>
  | DeleteConversationMessage string
  | EditMessage string string TextValue nat string "string option"
      \<comment> \<open>senderId, originalMessageId, editedText, editedAt, editNonce, editSignature\<close>
  | UnknownContent string string
      \<comment> \<open>senderId, type\<close>

record Reaction =
  r_emojiId :: string
  r_spaceId :: string
  r_emojiName :: string
  r_count :: nat
  r_memberIds :: "string list"

record Mentions =
  mn_memberIds :: "string list"
  mn_roleIds :: "string list"
  mn_channelIds :: "string list"
  mn_everyone :: "bool option"
  mn_totalMentionCount :: "nat option"

text \<open>
  \<^verbatim>\<open>Message\<close>: the required fields. The optional fields of the source type
  (\<^verbatim>\<open>replyMetadata\<close>, \<^verbatim>\<open>publicKey\<close>, \<^verbatim>\<open>signature\<close>, pin and edit history, send status)
  are never read by the sync code and live in the record's extension slot.
\<close>

record Message =
  m_channelId :: string
  m_spaceId :: string
  m_messageId :: string
  m_digestAlgorithm :: string
  m_nonce :: string
  m_createdDate :: nat
  m_modifiedDate :: nat
  m_lastModifiedHash :: string
  m_content :: MessageContent
  m_reactions :: "Reaction list"
  m_mentions :: Mentions

record SpaceMember =
  sm_address :: string
  sm_name :: "string option"
  sm_display_name :: "string option"
  sm_profile_image :: "string option"
  sm_bio :: "string option"
  sm_inbox_address :: string
  sm_isKicked :: "bool option"

subsection \<open>Sync protocol types (sync/types.ts)\<close>

record MessageDigest =
  md_messageId :: string
  md_createdDate :: nat
  md_contentHash :: string
  md_modifiedDate :: "nat option"

record ReactionDigest =
  rd_messageId :: string
  rd_emojiId :: string
  rd_count :: nat
  rd_membersHash :: string

record SyncManifest =
  mf_spaceId :: string
  mf_channelId :: string
  mf_messageCount :: nat
  mf_oldestTimestamp :: enat
  mf_newestTimestamp :: nat
  mf_digests :: "MessageDigest list"
  mf_reactionDigests :: "ReactionDigest list"

record MessageDelta =
  mdl_spaceId :: string
  mdl_channelId :: string
  mdl_newMessages :: "Message list"
  mdl_updatedMessages :: "Message list"
  mdl_deletedMessageIds :: "string list"

record ReactionChange =
  rc_messageId :: string
  rc_emojiId :: string
  rc_memberIds :: "string list"

record ReactionDelta =
  rdl_spaceId :: string
  rdl_channelId :: string
  rdl_added :: "ReactionChange list"
  rdl_removed :: "ReactionChange list"

record MemberDigest =
  mbd_address :: string
  mbd_inboxAddress :: string
  mbd_displayNameHash :: string
  mbd_iconHash :: string

record MemberDelta =
  mbl_spaceId :: string
  mbl_members :: "SpaceMember list"
  mbl_removedAddresses :: "string list"

record PeerEntry =
  pe_peerId :: nat
  pe_publicKey :: string
  pe_identityPublicKey :: "string option"
  pe_signedPrePublicKey :: "string option"

record PeerMapDelta =
  pml_spaceId :: string
  pml_added :: "PeerEntry list"
  pml_updated :: "PeerEntry list"
  pml_removed :: "nat list"

record DeletedMessageTombstone =
  ts_messageId :: string
  ts_spaceId :: string
  ts_channelId :: string
  ts_deletedAt :: nat

record SyncSummary =
  su_memberCount :: nat
  su_messageCount :: nat
  su_newestMessageTimestamp :: nat
  su_oldestMessageTimestamp :: enat
  su_manifestHash :: "string option"

text \<open>The \<^verbatim>\<open>type\<close> field of \<^verbatim>\<open>SyncDeltaPayload\<close> is the constant \<^verbatim>\<open>'sync-delta'\<close>.\<close>

record SyncDeltaPayload =
  dp_messageDelta :: "MessageDelta option"
  dp_reactionDelta :: "ReactionDelta option"
  dp_memberDelta :: "MemberDelta option"
  dp_peerMapDelta :: "PeerMapDelta option"
  dp_isFinal :: "bool option"

record SyncCandidate =
  cd_inboxAddress :: string
  cd_summary :: SyncSummary

record SyncSession =
  ss_spaceId :: string
  ss_channelId :: string
  ss_expiry :: nat
  ss_candidates :: "SyncCandidate list"
  ss_timeout :: "nat option"
  ss_inProgress :: bool
  ss_syncTarget :: "string option"

subsection \<open>JavaScript \<^verbatim>\<open>Map\<close>\<close>

text \<open>
  A \<^verbatim>\<open>Map\<close> iterates in insertion order; \<^verbatim>\<open>set\<close> on a present key replaces the value
  in place, on an absent key appends. This is an association list with
  \<^const>\<open>AList.update\<close>. \<^verbatim>\<open>new Map(pairs)\<close> sets the pairs from left to right.
\<close>

type_synonym ('k, 'v) js_map = "('k \<times> 'v) list"

definition Map_get :: "('k, 'v) js_map \<Rightarrow> 'k \<Rightarrow> 'v option" where
  "Map_get m k = map_of m k"

definition Map_has :: "('k, 'v) js_map \<Rightarrow> 'k \<Rightarrow> bool" where
  "Map_has m k = (map_of m k \<noteq> None)"

definition Map_set :: "('k, 'v) js_map \<Rightarrow> 'k \<Rightarrow> 'v \<Rightarrow> ('k, 'v) js_map" where
  "Map_set m k v = AList.update k v m"

definition Map_delete :: "('k, 'v) js_map \<Rightarrow> 'k \<Rightarrow> ('k, 'v) js_map" where
  "Map_delete m k = AList.delete k m"

definition Map_new :: "('k \<times> 'v) list \<Rightarrow> ('k, 'v) js_map" where
  "Map_new pairs = foldl (\<lambda>m (k, v). Map_set m k v) [] pairs"

definition Map_keys :: "('k, 'v) js_map \<Rightarrow> 'k list" where
  "Map_keys m = map fst m"

definition Map_values :: "('k, 'v) js_map \<Rightarrow> 'v list" where
  "Map_values m = map snd m"

definition Map_size :: "('k, 'v) js_map \<Rightarrow> nat" where
  "Map_size m = length m"

subsection \<open>Strings and bytes (utils/encoding.ts)\<close>

text \<open>\<^verbatim>\<open>Array.prototype.join\<close>.\<close>

fun join :: "string \<Rightarrow> string list \<Rightarrow> string" where
  "join sep [] = []"
| "join sep [x] = x"
| "join sep (x # y # ys) = x @ sep @ join sep (y # ys)"

definition hexDigit :: "nat \<Rightarrow> char" where
  "hexDigit n = ''0123456789abcdef'' ! n"

text \<open>\<^verbatim>\<open>b.toString(16).padStart(2, '0')\<close> for a byte \<open>b\<close>.\<close>

definition byteToHex :: "byte \<Rightarrow> string" where
  "byteToHex b =
     (let n = unat b;
          s = (if n < 16 then [hexDigit n] else [hexDigit (n div 16), hexDigit (n mod 16)])
      in replicate (2 - length s) CHR ''0'' @ s)"

definition bytesToHex :: "byte list \<Rightarrow> string" where
  "bytesToHex bytes = concat (map byteToHex bytes)"

text \<open>
  Decimal rendering of a number inside a template string or by \<^verbatim>\<open>JSON.stringify\<close>; it
  is JavaScript's rendering of an integer below \<open>10^21\<close>.
\<close>

fun decimal :: "nat \<Rightarrow> string" where
  "decimal n =
     (if n < 10 then [''0123456789'' ! n]
      else decimal (n div 10) @ [''0123456789'' ! (n mod 10)])"

declare decimal.simps [simp del]


text \<open>JavaScript truthiness of an optional string, and \<^verbatim>\<open>x || ''\<close>.\<close>

definition truthy :: "string option \<Rightarrow> bool" where
  "truthy x = (case x of None \<Rightarrow> False | Some s \<Rightarrow> s \<noteq> [])"

definition orEmpty :: "string option \<Rightarrow> string" where
  "orEmpty x = (case x of None \<Rightarrow> [] | Some s \<Rightarrow> s)"

text \<open>\<^verbatim>\<open>a || b\<close> on an optional number: \<open>b\<close> when \<open>a\<close> is undefined or 0.\<close>

definition orNum :: "nat option \<Rightarrow> nat \<Rightarrow> nat" where
  "orNum a b = (case a of None \<Rightarrow> b | Some t \<Rightarrow> if t = 0 then b else t)"

section \<open>Sync utility functions (sync/utils.ts)\<close>

subsection \<open>Constants\<close>

definition MAX_CHUNK_SIZE :: nat where
  "MAX_CHUNK_SIZE = 5 * 1024 * 1024"

definition DEFAULT_SYNC_EXPIRY_MS :: nat where
  "DEFAULT_SYNC_EXPIRY_MS = 30000"

definition AGGRESSIVE_SYNC_TIMEOUT_MS :: nat where
  "AGGRESSIVE_SYNC_TIMEOUT_MS = 1000"

subsection \<open>Hash functions\<close>

definition computeHash :: "(string \<Rightarrow> byte list) \<Rightarrow> string \<Rightarrow> string" where
  "computeHash sha data = bytesToHex (sha data)"

fun contentSenderId :: "MessageContent \<Rightarrow> string" where
  "contentSenderId (PostMessage s _ _) = s"
| "contentSenderId (UpdateProfileMessage s _ _) = s"
| "contentSenderId (RemoveMessage s _) = s"
| "contentSenderId (EventMessage s _ _) = s"
| "contentSenderId (EmbedMessage s _ _ _ _ _ _ _) = s"
| "contentSenderId (ReactionMessage s _ _) = s"
| "contentSenderId (RemoveReactionMessage s _ _) = s"
| "contentSenderId (JoinMessage s) = s"
| "contentSenderId (LeaveMessage s) = s"
| "contentSenderId (KickMessage s) = s"
| "contentSenderId (MuteMessage s _ _ _ _ _) = s"
| "contentSenderId (StickerMessage s _ _) = s"
| "contentSenderId (PinMessage s _ _) = s"
| "contentSenderId (DeleteConversationMessage s) = s"
| "contentSenderId (EditMessage s _ _ _ _ _) = s"
| "contentSenderId (UnknownContent s _) = s"

fun contentType :: "MessageContent \<Rightarrow> string" where
  "contentType (PostMessage _ _ _) = ''post''"
| "contentType (UpdateProfileMessage _ _ _) = ''update-profile''"
| "contentType (RemoveMessage _ _) = ''remove-message''"
| "contentType (EventMessage _ _ _) = ''event''"
| "contentType (EmbedMessage _ _ _ _ _ _ _ _) = ''embed''"
| "contentType (ReactionMessage _ _ _) = ''reaction''"
| "contentType (RemoveReactionMessage _ _ _) = ''remove-reaction''"
| "contentType (JoinMessage _) = ''join''"
| "contentType (LeaveMessage _) = ''leave''"
| "contentType (KickMessage _) = ''kick''"
| "contentType (MuteMessage _ _ _ _ _ _) = ''mute''"
| "contentType (StickerMessage _ _ _) = ''sticker''"
| "contentType (PinMessage _ _ _) = ''pin''"
| "contentType (DeleteConversationMessage _) = ''delete-conversation''"
| "contentType (EditMessage _ _ _ _ _ _) = ''edit-message''"
| "contentType (UnknownContent _ t) = t"

text \<open>The tags the \<^verbatim>\<open>switch\<close> of \<^verbatim>\<open>computeContentHash\<close> has a \<^verbatim>\<open>case\<close> for.\<close>

definition knownContentTypes :: "string list" where
  "knownContentTypes =
     [''post'', ''embed'', ''sticker'', ''edit-message'', ''remove-message'', ''join'',
      ''leave'', ''kick'', ''event'', ''update-profile'', ''mute'', ''pin'', ''reaction'',
      ''remove-reaction'', ''delete-conversation'']"

definition textToString :: "TextValue \<Rightarrow> string" where
  "textToString t = (case t of TextArray ls \<Rightarrow> join [CHR 0x0A] ls | TextString s \<Rightarrow> s)"

definition replySuffix :: "string option \<Rightarrow> string" where
  "replySuffix r = (if truthy r then '':reply:'' @ orEmpty r else [])"

definition muteActionString :: "MuteAction \<Rightarrow> string" where
  "muteActionString a = (case a of ActMute \<Rightarrow> ''mute'' | ActUnmute \<Rightarrow> ''unmute'')"

definition pinActionString :: "PinAction \<Rightarrow> string" where
  "pinActionString a = (case a of ActPin \<Rightarrow> ''pin'' | ActUnpin \<Rightarrow> ''unpin'')"

text \<open>
  What the \<^verbatim>\<open>switch\<close> appends to \<^verbatim>\<open>canonical\<close>. The \<^verbatim>\<open>switch\<close> has no
  \<^verbatim>\<open>default\<close> branch: on any other tag nothing is appended and control reaches the
  \<^verbatim>\<open>return\<close>.
\<close>

fun canonicalSuffix :: "MessageContent \<Rightarrow> string" where
  "canonicalSuffix (PostMessage _ text reply) = '':'' @ textToString text @ replySuffix reply"
| "canonicalSuffix (EmbedMessage _ imageUrl _ videoUrl _ _ _ reply) =
     '':'' @ orEmpty imageUrl @ '':'' @ orEmpty videoUrl @ replySuffix reply"
| "canonicalSuffix (StickerMessage _ stickerId reply) = '':'' @ stickerId @ replySuffix reply"
| "canonicalSuffix (EditMessage _ originalMessageId editedText editedAt _ _) =
     '':'' @ originalMessageId @ '':'' @ textToString editedText @ '':'' @ decimal editedAt"
| "canonicalSuffix (RemoveMessage _ removeMessageId) = '':'' @ removeMessageId"
| "canonicalSuffix (JoinMessage _) = []"
| "canonicalSuffix (LeaveMessage _) = []"
| "canonicalSuffix (KickMessage _) = []"
| "canonicalSuffix (EventMessage _ text _) = '':'' @ text"
| "canonicalSuffix (UpdateProfileMessage _ displayName userIcon) =
     '':'' @ displayName @ '':'' @ userIcon"
| "canonicalSuffix (MuteMessage _ targetUserId muteId _ action _) =
     '':'' @ targetUserId @ '':'' @ muteActionString action @ '':'' @ muteId"
| "canonicalSuffix (PinMessage _ targetMessageId action) =
     '':'' @ targetMessageId @ '':'' @ pinActionString action"
| "canonicalSuffix (ReactionMessage _ reaction messageId) = '':'' @ messageId @ '':'' @ reaction"
| "canonicalSuffix (RemoveReactionMessage _ reaction messageId) =
     '':'' @ messageId @ '':'' @ reaction"
| "canonicalSuffix (DeleteConversationMessage _) = []"
| "canonicalSuffix (UnknownContent _ _) = []"

datatype sync_error = StorageFailure | UnsupportedContent | InvariantViolation

text \<open>
  \<^verbatim>\<open>computeContentHash\<close>. The result is a sum so that a thrown error would be a value;
  the source function contains no \<^verbatim>\<open>throw\<close>, so every path ends in \<open>Inr\<close>.
\<close>

definition computeContentHash ::
  "(string \<Rightarrow> byte list) \<Rightarrow> 'a Message_scheme \<Rightarrow> sync_error + string" where
  "computeContentHash sha message =
     (let content = m_content message;
          canonical = contentSenderId content @ '':'' @ contentType content
      in Inr (computeHash sha (canonical @ canonicalSuffix content)))"

text \<open>The value a caller of \<^verbatim>\<open>computeContentHash\<close> goes on with.\<close>

definition contentHashValue :: "(string \<Rightarrow> byte list) \<Rightarrow> 'a Message_scheme \<Rightarrow> string" where
  "contentHashValue sha message =
     (case computeContentHash sha message of Inr h \<Rightarrow> h | Inl _ \<Rightarrow> [])"

definition computeMemberHash ::
  "(string \<Rightarrow> byte list) \<Rightarrow> 'a SpaceMember_scheme \<Rightarrow> string \<times> string" where
  "computeMemberHash sha member =
     (computeHash sha (orEmpty (sm_display_name member)),
      computeHash sha (orEmpty (sm_profile_image member)))"

subsection \<open>Digest creation\<close>

definition createMessageDigest ::
  "(string \<Rightarrow> byte list) \<Rightarrow> 'a Message_scheme \<Rightarrow> MessageDigest" where
  "createMessageDigest sha message =
     \<lparr> md_messageId = m_messageId message,
       md_createdDate = m_createdDate message,
       md_contentHash = contentHashValue sha message,
       md_modifiedDate =
         (if m_modifiedDate message \<noteq> m_createdDate message
          then Some (m_modifiedDate message) else None) \<rparr>"

text \<open>
  \<^verbatim>\<open>[...r.memberIds].sort()\<close> is the default string sort, which compares UTF-16 code
  units. On UTF-8 byte strings the byte-wise order is the order of code points; the two
  differ only in that a character beyond the basic plane (lead bytes \<open>0xF0\<close> to
  \<open>0xF4\<close>, a surrogate pair in UTF-16) sorts before the characters \<open>U+E000\<close> to
  \<open>U+FFFF\<close> (lead bytes \<open>0xEE\<close> and \<open>0xEF\<close>). The sort key moves these two lead bytes
  above \<open>0xF4\<close>; no continuation byte has these values. The sort is stable, as
  JavaScript's is.
\<close>

definition utf16SortKey :: "string \<Rightarrow> nat list" where
  "utf16SortKey s =
     map (\<lambda>c. let b = (of_char c :: nat) in if b = 0xEE \<or> b = 0xEF then b + 0x0E else b) s"

definition jsSort :: "string list \<Rightarrow> string list" where
  "jsSort xs = sort_key utf16SortKey xs"

definition createReactionDigest ::
  "(string \<Rightarrow> byte list) \<Rightarrow> string \<Rightarrow> Reaction list \<Rightarrow> ReactionDigest list" where
  "createReactionDigest sha messageId reactions =
     (if length reactions = 0 then []
      else map (\<lambda>r. \<lparr> rd_messageId = messageId,
                      rd_emojiId = r_emojiId r,
                      rd_count = r_count r,
                      rd_membersHash = computeHash sha (join '','' (jsSort (r_memberIds r))) \<rparr>)
             reactions)"

definition createMemberDigest ::
  "(string \<Rightarrow> byte list) \<Rightarrow> 'a SpaceMember_scheme \<Rightarrow> MemberDigest" where
  "createMemberDigest sha member =
     (let (displayNameHash, iconHash) = computeMemberHash sha member
      in \<lparr> mbd_address = sm_address member,
           mbd_inboxAddress = sm_inbox_address member,
           mbd_displayNameHash = displayNameHash,
           mbd_iconHash = iconHash \<rparr>)"


subsection \<open>Delta calculation\<close>

record MessageDiffResult =
  df_missingIds :: "string list"
  df_outdatedIds :: "string list"
  df_extraIds :: "string list"

text \<open>
  The first loop of \<^verbatim>\<open>computeMessageDiff\<close>, over the entries of \<^verbatim>\<open>theirDigests\<close>;
  the accumulator is the pair of arrays \<^verbatim>\<open>missingIds\<close>, \<^verbatim>\<open>outdatedIds\<close>.
\<close>

fun messageDiffLoop ::
  "(string, MessageDigest) js_map \<Rightarrow> (string \<times> MessageDigest) list \<Rightarrow>
   string list \<times> string list \<Rightarrow> string list \<times> string list" where
  "messageDiffLoop ourDigests [] acc = acc"
| "messageDiffLoop ourDigests ((mid, theirDigest) # rest) (missingIds, outdatedIds) =
     (case Map_get ourDigests mid of
        None \<Rightarrow> messageDiffLoop ourDigests rest (missingIds @ [mid], outdatedIds)
      | Some ourDigest \<Rightarrow>
          if md_contentHash ourDigest \<noteq> md_contentHash theirDigest then
            (let theirModified = orNum (md_modifiedDate theirDigest) (md_createdDate theirDigest);
                 ourModified = orNum (md_modifiedDate ourDigest) (md_createdDate ourDigest)
             in if theirModified > ourModified
                then messageDiffLoop ourDigests rest (missingIds, outdatedIds @ [mid])
                else messageDiffLoop ourDigests rest (missingIds, outdatedIds))
          else messageDiffLoop ourDigests rest (missingIds, outdatedIds))"

text \<open>The second loop, over the keys of \<^verbatim>\<open>ourDigests\<close>.\<close>

fun extraLoop :: "('k, 'v) js_map \<Rightarrow> 'k list \<Rightarrow> 'k list \<Rightarrow> 'k list" where
  "extraLoop theirs [] extraIds = extraIds"
| "extraLoop theirs (mid # rest) extraIds =
     (if \<not> Map_has theirs mid then extraLoop theirs rest (extraIds @ [mid])
      else extraLoop theirs rest extraIds)"

definition computeMessageDiff :: "SyncManifest \<Rightarrow> SyncManifest \<Rightarrow> MessageDiffResult" where
  "computeMessageDiff ourManifest theirManifest =
     (let ourDigests = Map_new (map (\<lambda>d. (md_messageId d, d)) (mf_digests ourManifest));
          theirDigests = Map_new (map (\<lambda>d. (md_messageId d, d)) (mf_digests theirManifest));
          (missingIds, outdatedIds) = messageDiffLoop ourDigests theirDigests ([], []);
          extraIds = extraLoop theirDigests (Map_keys ourDigests) []
      in \<lparr> df_missingIds = missingIds, df_outdatedIds = outdatedIds, df_extraIds = extraIds \<rparr>)"

record MemberDiffResult =
  mdf_missingAddresses :: "string list"
  mdf_outdatedAddresses :: "string list"
  mdf_extraAddresses :: "string list"

fun memberDiffLoop ::
  "(string, MemberDigest) js_map \<Rightarrow> (string \<times> MemberDigest) list \<Rightarrow>
   string list \<times> string list \<Rightarrow> string list \<times> string list" where
  "memberDiffLoop ourMap [] acc = acc"
| "memberDiffLoop ourMap ((address, theirDigest) # rest) (missingAddresses, outdatedAddresses) =
     (case Map_get ourMap address of
        None \<Rightarrow> memberDiffLoop ourMap rest (missingAddresses @ [address], outdatedAddresses)
      | Some ourDigest \<Rightarrow>
          if mbd_displayNameHash ourDigest \<noteq> mbd_displayNameHash theirDigest \<or>
             mbd_iconHash ourDigest \<noteq> mbd_iconHash theirDigest
          then memberDiffLoop ourMap rest (missingAddresses, outdatedAddresses @ [address])
          else memberDiffLoop ourMap rest (missingAddresses, outdatedAddresses))"

definition computeMemberDiff :: "MemberDigest list \<Rightarrow> MemberDigest list \<Rightarrow> MemberDiffResult" where
  "computeMemberDiff ourDigests theirDigests =
     (let ourMap = Map_new (map (\<lambda>d. (mbd_address d, d)) ourDigests);
          theirMap = Map_new (map (\<lambda>d. (mbd_address d, d)) theirDigests);
          (missingAddresses, outdatedAddresses) = memberDiffLoop ourMap theirMap ([], []);
          extraAddresses = extraLoop theirMap (Map_keys ourMap) []
      in \<lparr> mdf_missingAddresses = missingAddresses,
           mdf_outdatedAddresses = outdatedAddresses,
           mdf_extraAddresses = extraAddresses \<rparr>)"

record PeerDiffResult =
  pdf_missingPeerIds :: "nat list"
  pdf_extraPeerIds :: "nat list"

definition computePeerDiff :: "nat list \<Rightarrow> nat list \<Rightarrow> PeerDiffResult" where
  "computePeerDiff ourPeerIds theirPeerIds =
     \<lparr> pdf_missingPeerIds = filter (\<lambda>mid. mid \<notin> set ourPeerIds) theirPeerIds,
       pdf_extraPeerIds = filter (\<lambda>mid. mid \<notin> set theirPeerIds) ourPeerIds \<rparr>"

subsection \<open>Delta building\<close>

text \<open>\<^verbatim>\<open>ids.map((mid) => m.get(mid)).filter((x) => x !== undefined)\<close>.\<close>

definition lookupAll :: "('k, 'v) js_map \<Rightarrow> 'k list \<Rightarrow> 'v list" where
  "lookupAll m ids = List.map_filter (Map_get m) ids"

definition buildMessageDelta ::
  "string \<Rightarrow> string \<Rightarrow> MessageDiffResult \<Rightarrow> (string, Message) js_map \<Rightarrow>
   DeletedMessageTombstone list \<Rightarrow> MessageDelta" where
  "buildMessageDelta spaceId channelId diff messageMap tombstones =
     \<lparr> mdl_spaceId = spaceId,
       mdl_channelId = channelId,
       mdl_newMessages = lookupAll messageMap (df_extraIds diff),
       mdl_updatedMessages = lookupAll messageMap (df_outdatedIds diff),
       mdl_deletedMessageIds =
         map ts_messageId
           (filter (\<lambda>t. ts_spaceId t = spaceId \<and> ts_channelId t = channelId) tombstones) \<rparr>"

text \<open>
  \<^verbatim>\<open>buildReactionDelta\<close>: the nested loops push one entry per reaction of every listed
  message that is in the map.
\<close>

definition buildReactionDelta ::
  "string \<Rightarrow> string \<Rightarrow> (string, Message) js_map \<Rightarrow> string list \<Rightarrow> ReactionDelta" where
  "buildReactionDelta spaceId channelId messageMap messageIds =
     \<lparr> rdl_spaceId = spaceId,
       rdl_channelId = channelId,
       rdl_added =
         concat (map (\<lambda>messageId.
                   case Map_get messageMap messageId of
                     None \<Rightarrow> []
                   | Some message \<Rightarrow>
                       map (\<lambda>reaction. \<lparr> rc_messageId = messageId,
                                         rc_emojiId = r_emojiId reaction,
                                         rc_memberIds = r_memberIds reaction \<rparr>)
                         (m_reactions message))
                 messageIds),
       rdl_removed = [] \<rparr>"

definition buildMemberDelta ::
  "string \<Rightarrow> MemberDiffResult \<Rightarrow> (string, SpaceMember) js_map \<Rightarrow> MemberDelta" where
  "buildMemberDelta spaceId diff memberMap =
     (let addresses = mdf_missingAddresses diff @ mdf_outdatedAddresses diff
      in \<lparr> mbl_spaceId = spaceId,
           mbl_members = lookupAll memberMap addresses,
           mbl_removedAddresses = [] \<rparr>)"

subsection \<open>\<^verbatim>\<open>JSON.stringify\<close> of a message\<close>

text \<open>
  The serialized form of a message as a UTF-8 byte string: objects and arrays without
  white space, absent optional fields left out, strings quoted with the escapes of
  \<^verbatim>\<open>JSON.stringify\<close> (quote, backslash, the five short control escapes, \<^verbatim>\<open>\u00xx\<close> for
  the other characters below \<open>0x20\<close>; nothing else is escaped). Keys are written in
  the order of the type declarations; the length of the text does not depend on the order.
  For \<open>UnknownContent\<close> only the two fields the model holds are written.
\<close>

definition jsonEscapeChar :: "char \<Rightarrow> string" where
  "jsonEscapeChar c =
     (if c = CHR 0x22 then [CHR 0x5C, CHR 0x22]
      else if c = CHR 0x5C then [CHR 0x5C, CHR 0x5C]
      else if c = CHR 0x08 then [CHR 0x5C, CHR ''b'']
      else if c = CHR 0x0C then [CHR 0x5C, CHR ''f'']
      else if c = CHR 0x0A then [CHR 0x5C, CHR ''n'']
      else if c = CHR 0x0D then [CHR 0x5C, CHR ''r'']
      else if c = CHR 0x09 then [CHR 0x5C, CHR ''t'']
      else if (of_char c :: nat) < 0x20
        then [CHR 0x5C, CHR ''u'', CHR ''0'', CHR ''0'',
              hexDigit ((of_char c :: nat) div 16), hexDigit ((of_char c :: nat) mod 16)]
      else [c])"

definition jsonString :: "string \<Rightarrow> string" where
  "jsonString s = [CHR 0x22] @ concat (map jsonEscapeChar s) @ [CHR 0x22]"

definition jsonBool :: "bool \<Rightarrow> string" where
  "jsonBool b = (if b then ''true'' else ''false'')"

definition jsonArray :: "string list \<Rightarrow> string" where
  "jsonArray items = ''['' @ join '','' items @ '']''"

text \<open>An object from its fields in order; a field whose value is absent is left out.\<close>

definition jsonObject :: "(string \<times> string option) list \<Rightarrow> string" where
  "jsonObject entries =
     ''{'' @ join '',''
              (List.map_filter
                 (\<lambda>(k, v). map_option (\<lambda>j. jsonString k @ '':'' @ j) v) entries) @ ''}''"

definition jsonText :: "TextValue \<Rightarrow> string" where
  "jsonText t =
     (case t of TextString s \<Rightarrow> jsonString s | TextArray ls \<Rightarrow> jsonArray (map jsonString ls))"

fun jsonContent :: "MessageContent \<Rightarrow> string" where
  "jsonContent (PostMessage senderId text reply) =
     jsonObject [(''senderId'', Some (jsonString senderId)), (''type'', Some (jsonString ''post'')),
                 (''text'', Some (jsonText text)),
                 (''repliesToMessageId'', map_option jsonString reply)]"
| "jsonContent (UpdateProfileMessage senderId displayName userIcon) =
     jsonObject [(''senderId'', Some (jsonString senderId)),
                 (''type'', Some (jsonString ''update-profile'')),
                 (''displayName'', Some (jsonString displayName)),
                 (''userIcon'', Some (jsonString userIcon))]"
| "jsonContent (RemoveMessage senderId removeMessageId) =
     jsonObject [(''senderId'', Some (jsonString senderId)),
                 (''type'', Some (jsonString ''remove-message'')),
                 (''removeMessageId'', Some (jsonString removeMessageId))]"
| "jsonContent (EventMessage senderId text reply) =
     jsonObject [(''senderId'', Some (jsonString senderId)), (''type'', Some (jsonString ''event'')),
                 (''text'', Some (jsonString text)),
                 (''repliesToMessageId'', map_option jsonString reply)]"
| "jsonContent (EmbedMessage senderId imageUrl thumbnailUrl videoUrl width height isLargeGif reply) =
     jsonObject [(''senderId'', Some (jsonString senderId)), (''type'', Some (jsonString ''embed'')),
                 (''imageUrl'', map_option jsonString imageUrl),
                 (''thumbnailUrl'', map_option jsonString thumbnailUrl),
                 (''videoUrl'', map_option jsonString videoUrl),
                 (''width'', map_option jsonString width),
                 (''height'', map_option jsonString height),
                 (''isLargeGif'', map_option jsonBool isLargeGif),
                 (''repliesToMessageId'', map_option jsonString reply)]"
| "jsonContent (ReactionMessage senderId reaction messageId) =
     jsonObject [(''senderId'', Some (jsonString senderId)),
                 (''type'', Some (jsonString ''reaction'')),
                 (''reaction'', Some (jsonString reaction)),
                 (''messageId'', Some (jsonString messageId))]"
| "jsonContent (RemoveReactionMessage senderId reaction messageId) =
     jsonObject [(''senderId'', Some (jsonString senderId)),
                 (''type'', Some (jsonString ''remove-reaction'')),
                 (''reaction'', Some (jsonString reaction)),
                 (''messageId'', Some (jsonString messageId))]"
| "jsonContent (JoinMessage senderId) =
     jsonObject [(''senderId'', Some (jsonString senderId)), (''type'', Some (jsonString ''join''))]"
| "jsonContent (LeaveMessage senderId) =
     jsonObject [(''senderId'', Some (jsonString senderId)), (''type'', Some (jsonString ''leave''))]"
| "jsonContent (KickMessage senderId) =
     jsonObject [(''senderId'', Some (jsonString senderId)), (''type'', Some (jsonString ''kick''))]"
| "jsonContent (MuteMessage senderId targetUserId muteId timestamp action duration) =
     jsonObject [(''senderId'', Some (jsonString senderId)), (''type'', Some (jsonString ''mute'')),
                 (''targetUserId'', Some (jsonString targetUserId)),
                 (''muteId'', Some (jsonString muteId)),
                 (''timestamp'', Some (decimal timestamp)),
                 (''action'', Some (jsonString (muteActionString action))),
                 (''duration'', map_option decimal duration)]"
| "jsonContent (StickerMessage senderId stickerId reply) =
     jsonObject [(''senderId'', Some (jsonString senderId)),
                 (''type'', Some (jsonString ''sticker'')),
                 (''stickerId'', Some (jsonString stickerId)),
                 (''repliesToMessageId'', map_option jsonString reply)]"
| "jsonContent (PinMessage senderId targetMessageId action) =
     jsonObject [(''senderId'', Some (jsonString senderId)), (''type'', Some (jsonString ''pin'')),
                 (''targetMessageId'', Some (jsonString targetMessageId)),
                 (''action'', Some (jsonString (pinActionString action)))]"
| "jsonContent (DeleteConversationMessage senderId) =
     jsonObject [(''senderId'', Some (jsonString senderId)),
                 (''type'', Some (jsonString ''delete-conversation''))]"
| "jsonContent (EditMessage senderId originalMessageId editedText editedAt editNonce editSignature) =
     jsonObject [(''senderId'', Some (jsonString senderId)),
                 (''type'', Some (jsonString ''edit-message'')),
                 (''originalMessageId'', Some (jsonString originalMessageId)),
                 (''editedText'', Some (jsonText editedText)),
                 (''editedAt'', Some (decimal editedAt)),
                 (''editNonce'', Some (jsonString editNonce)),
                 (''editSignature'', map_option jsonString editSignature)]"
| "jsonContent (UnknownContent senderId type) =
     jsonObject [(''senderId'', Some (jsonString senderId)), (''type'', Some (jsonString type))]"

definition jsonReaction :: "Reaction \<Rightarrow> string" where
  "jsonReaction r =
     jsonObject [(''emojiId'', Some (jsonString (r_emojiId r))),
                 (''spaceId'', Some (jsonString (r_spaceId r))),
                 (''emojiName'', Some (jsonString (r_emojiName r))),
                 (''count'', Some (decimal (r_count r))),
                 (''memberIds'', Some (jsonArray (map jsonString (r_memberIds r))))]"

definition jsonMentions :: "Mentions \<Rightarrow> string" where
  "jsonMentions mn =
     jsonObject [(''memberIds'', Some (jsonArray (map jsonString (mn_memberIds mn)))),
                 (''roleIds'', Some (jsonArray (map jsonString (mn_roleIds mn)))),
                 (''channelIds'', Some (jsonArray (map jsonString (mn_channelIds mn)))),
                 (''everyone'', map_option jsonBool (mn_everyone mn)),
                 (''totalMentionCount'', map_option decimal (mn_totalMentionCount mn))]"

definition JSON_stringify :: "Message \<Rightarrow> string" where
  "JSON_stringify msg =
     jsonObject [(''channelId'', Some (jsonString (m_channelId msg))),
                 (''spaceId'', Some (jsonString (m_spaceId msg))),
                 (''messageId'', Some (jsonString (m_messageId msg))),
                 (''digestAlgorithm'', Some (jsonString (m_digestAlgorithm msg))),
                 (''nonce'', Some (jsonString (m_nonce msg))),
                 (''createdDate'', Some (decimal (m_createdDate msg))),
                 (''modifiedDate'', Some (decimal (m_modifiedDate msg))),
                 (''lastModifiedHash'', Some (jsonString (m_lastModifiedHash msg))),
                 (''content'', Some (jsonContent (m_content msg))),
                 (''reactions'', Some (jsonArray (map jsonReaction (m_reactions msg)))),
                 (''mentions'', Some (jsonMentions (m_mentions msg)))]"

text \<open>
  The number of UTF-16 code units a byte of UTF-8 text stands for: one for an ASCII byte
  and for the lead byte of a two- or three-byte character, two (a surrogate pair) for the
  lead byte of a four-byte character, none for a continuation byte.
\<close>

definition utf16Units :: "char \<Rightarrow> nat" where
  "utf16Units c =
     (let b = (of_char c :: nat)
      in if b < 0x80 then 1 else if b < 0xC0 then 0 else if b < 0xF0 then 1 else 2)"

text \<open>\<^verbatim>\<open>s.length\<close> of a JavaScript string: its number of UTF-16 code units.\<close>

definition utf16Length :: "string \<Rightarrow> nat" where
  "utf16Length s = sum_list (map utf16Units s)"

text \<open>
  \<^verbatim>\<open>JSON.stringify(msg).length\<close>, the measure \<^verbatim>\<open>chunkMessages\<close> is run with, and the
  size of the same text in bytes.
\<close>

definition jsonLength :: "Message \<Rightarrow> nat" where
  "jsonLength msg = utf16Length (JSON_stringify msg)"

definition jsonBytes :: "Message \<Rightarrow> nat" where
  "jsonBytes msg = length (JSON_stringify msg)"

subsection \<open>Chunking\<close>

text \<open>
  The loop of \<^verbatim>\<open>chunkMessages\<close> with its three variables \<^verbatim>\<open>chunks\<close>,
  \<^verbatim>\<open>currentChunk\<close>, \<^verbatim>\<open>currentSize\<close>; the first equation is the code after the loop.
\<close>

fun chunkLoop ::
  "('m \<Rightarrow> nat) \<Rightarrow> 'm list \<Rightarrow> 'm list list \<Rightarrow> 'm list \<Rightarrow> nat \<Rightarrow> 'm list list" where
  "chunkLoop sz [] chunks currentChunk currentSize =
     (if length currentChunk > 0 then chunks @ [currentChunk] else chunks)"
| "chunkLoop sz (msg # rest) chunks currentChunk currentSize =
     (let msgSize = sz msg in
      if msgSize > MAX_CHUNK_SIZE then
        (if length currentChunk > 0
         then chunkLoop sz rest (chunks @ [currentChunk] @ [[msg]]) [] 0
         else chunkLoop sz rest (chunks @ [[msg]]) currentChunk currentSize)
      else if currentSize + msgSize > MAX_CHUNK_SIZE \<and> length currentChunk > 0
        then chunkLoop sz rest (chunks @ [currentChunk]) ([] @ [msg]) (0 + msgSize)
        else chunkLoop sz rest chunks (currentChunk @ [msg]) (currentSize + msgSize))"

definition chunkMessages :: "(Message \<Rightarrow> nat) \<Rightarrow> Message list \<Rightarrow> Message list list" where
  "chunkMessages sz messages = chunkLoop sz messages [] [] 0"


section \<open>The sync service (sync/service.ts)\<close>

subsection \<open>Payload cache\<close>

record SyncPayloadCache =
  pc_spaceId :: string
  pc_channelId :: string
  pc_messageMap :: "(string, Message) js_map"
  pc_memberMap :: "(string, SpaceMember) js_map"
  pc_digestMap :: "(string, MessageDigest) js_map"
  pc_memberDigestMap :: "(string, MemberDigest) js_map"
  pc_oldestTimestamp :: enat
  pc_newestTimestamp :: nat
  pc_manifestHashBytes :: "byte list"

definition getCacheKey :: "string \<Rightarrow> string \<Rightarrow> string" where
  "getCacheKey spaceId channelId = spaceId @ '':'' @ channelId"

definition hashMessageId :: "(string \<Rightarrow> byte list) \<Rightarrow> string \<Rightarrow> byte list" where
  "hashMessageId sha messageId = sha messageId"

text \<open>
  Reading \<^verbatim>\<open>hash[i]\<close> from a \<^verbatim>\<open>Uint8Array\<close>: beyond the end the value is
  \<^verbatim>\<open>undefined\<close>, which \<^verbatim>\<open>^\<close> converts to 0.
\<close>

definition byteAt :: "byte list \<Rightarrow> nat \<Rightarrow> byte" where
  "byteAt hash i = (if i < length hash then hash ! i else 0)"

text \<open>
  \<^verbatim>\<open>xorIntoHash\<close> mutates the accumulator in place, index by index; the model returns
  the new array. A write beyond the end of a typed array is dropped, as \<open>xs[i := v]\<close> is.
\<close>

definition xorIntoHash :: "byte list \<Rightarrow> byte list \<Rightarrow> byte list" where
  "xorIntoHash accumulator hash =
     foldl (\<lambda>acc i. acc[i := acc ! i XOR byteAt hash i]) accumulator [0..<32]"

text \<open>
  The timestamp loop shared by \<^verbatim>\<open>buildPayloadCache\<close> and
  \<^verbatim>\<open>recalculateTimestamps\<close>; it starts from \<^verbatim>\<open>(Infinity, 0)\<close>.
\<close>

fun timestampLoop :: "Message list \<Rightarrow> enat \<times> nat \<Rightarrow> enat \<times> nat" where
  "timestampLoop [] acc = acc"
| "timestampLoop (msg # rest) (oldestTimestamp, newestTimestamp) =
     timestampLoop rest
       (if enat (m_createdDate msg) < oldestTimestamp then enat (m_createdDate msg)
        else oldestTimestamp,
        if m_createdDate msg > newestTimestamp then m_createdDate msg else newestTimestamp)"

definition buildPayloadCache ::
  "(string \<Rightarrow> byte list) \<Rightarrow> string \<Rightarrow> string \<Rightarrow> Message list \<Rightarrow> SpaceMember list \<Rightarrow>
   SyncPayloadCache" where
  "buildPayloadCache sha spaceId channelId messages members =
     (let messageMap = Map_new (map (\<lambda>m. (m_messageId m, m)) messages);
          memberMap = Map_new (map (\<lambda>m. (sm_address m, m)) members);
          digestMap = Map_new (map (\<lambda>m. (m_messageId m, createMessageDigest sha m)) messages);
          memberDigestMap = Map_new (map (\<lambda>m. (sm_address m, createMemberDigest sha m)) members);
          (oldestTimestamp, newestTimestamp) = timestampLoop messages (\<infinity>, 0);
          oldestTimestamp = (if length messages = 0 then 0 else oldestTimestamp);
          manifestHashBytes =
            foldl (\<lambda>acc msg. xorIntoHash acc (hashMessageId sha (m_messageId msg)))
              (replicate 32 0) messages
      in \<lparr> pc_spaceId = spaceId,
           pc_channelId = channelId,
           pc_messageMap = messageMap,
           pc_memberMap = memberMap,
           pc_digestMap = digestMap,
           pc_memberDigestMap = memberDigestMap,
           pc_oldestTimestamp = oldestTimestamp,
           pc_newestTimestamp = newestTimestamp,
           pc_manifestHashBytes = manifestHashBytes \<rparr>)"

definition getManifestHash :: "SyncPayloadCache \<Rightarrow> string" where
  "getManifestHash cache = bytesToHex (pc_manifestHashBytes cache)"

text \<open>
  \<^verbatim>\<open>Array.prototype.sort\<close> is stable; with the comparator
  \<^verbatim>\<open>a.createdDate - b.createdDate\<close> it is \<^const>\<open>sort_key\<close> on the creation date.
\<close>

definition getManifest :: "(string \<Rightarrow> byte list) \<Rightarrow> SyncPayloadCache \<Rightarrow> SyncManifest" where
  "getManifest sha cache =
     (let digests = sort_key md_createdDate (Map_values (pc_digestMap cache));
          reactionDigests =
            concat (map (\<lambda>msg. if length (m_reactions msg) > 0
                               then createReactionDigest sha (m_messageId msg) (m_reactions msg)
                               else [])
                      (Map_values (pc_messageMap cache)))
      in \<lparr> mf_spaceId = pc_spaceId cache,
           mf_channelId = pc_channelId cache,
           mf_messageCount = Map_size (pc_digestMap cache),
           mf_oldestTimestamp = pc_oldestTimestamp cache,
           mf_newestTimestamp = pc_newestTimestamp cache,
           mf_digests = digests,
           mf_reactionDigests = reactionDigests \<rparr>)"

definition getSummary :: "SyncPayloadCache \<Rightarrow> SyncSummary" where
  "getSummary cache =
     \<lparr> su_memberCount = Map_size (pc_memberDigestMap cache),
       su_messageCount = Map_size (pc_digestMap cache),
       su_newestMessageTimestamp = pc_newestTimestamp cache,
       su_oldestMessageTimestamp = pc_oldestTimestamp cache,
       su_manifestHash = Some (getManifestHash cache) \<rparr>"

definition getMemberDigests :: "SyncPayloadCache \<Rightarrow> MemberDigest list" where
  "getMemberDigests cache = Map_values (pc_memberDigestMap cache)"

text \<open>
  The cache operations of the service look the cache up by key and, when there is one,
  mutate it in place. The functions with suffix \<open>_cached\<close> are the blocks under
  \<^verbatim>\<open>if (cached)\<close>, on the cache object; the service-level functions follow below.
\<close>

definition updateCacheWithMessage_cached ::
  "(string \<Rightarrow> byte list) \<Rightarrow> SyncPayloadCache \<Rightarrow> Message \<Rightarrow> SyncPayloadCache" where
  "updateCacheWithMessage_cached sha cached message =
     (let isNew = \<not> Map_has (pc_messageMap cached) (m_messageId message);
          cached = cached\<lparr> pc_messageMap :=
                     Map_set (pc_messageMap cached) (m_messageId message) message \<rparr>;
          cached = cached\<lparr> pc_digestMap :=
                     Map_set (pc_digestMap cached) (m_messageId message)
                       (createMessageDigest sha message) \<rparr>;
          cached = (if enat (m_createdDate message) < pc_oldestTimestamp cached
                    then cached\<lparr> pc_oldestTimestamp := enat (m_createdDate message) \<rparr>
                    else cached);
          cached = (if m_createdDate message > pc_newestTimestamp cached
                    then cached\<lparr> pc_newestTimestamp := m_createdDate message \<rparr>
                    else cached)
      in if isNew
         then cached\<lparr> pc_manifestHashBytes :=
                xorIntoHash (pc_manifestHashBytes cached)
                  (hashMessageId sha (m_messageId message)) \<rparr>
         else cached)"

definition recalculateTimestamps :: "SyncPayloadCache \<Rightarrow> SyncPayloadCache" where
  "recalculateTimestamps cache =
     (let (oldestTimestamp, newestTimestamp) =
            timestampLoop (Map_values (pc_messageMap cache)) (\<infinity>, 0)
      in cache\<lparr> pc_oldestTimestamp :=
                  (if Map_size (pc_messageMap cache) = 0 then 0 else oldestTimestamp),
                pc_newestTimestamp := newestTimestamp \<rparr>)"

definition removeCacheMessage_cached ::
  "(string \<Rightarrow> byte list) \<Rightarrow> SyncPayloadCache \<Rightarrow> string \<Rightarrow> SyncPayloadCache" where
  "removeCacheMessage_cached sha cached messageId =
     (case Map_get (pc_messageMap cached) messageId of
        None \<Rightarrow> cached
      | Some message \<Rightarrow>
          (let cached = cached\<lparr> pc_messageMap := Map_delete (pc_messageMap cached) messageId \<rparr>;
               cached = cached\<lparr> pc_digestMap := Map_delete (pc_digestMap cached) messageId \<rparr>;
               cached = cached\<lparr> pc_manifestHashBytes :=
                          xorIntoHash (pc_manifestHashBytes cached)
                            (hashMessageId sha messageId) \<rparr>
           in if enat (m_createdDate message) = pc_oldestTimestamp cached \<or>
                 m_createdDate message = pc_newestTimestamp cached
              then recalculateTimestamps cached
              else cached))"

definition updateCacheWithMember_cached ::
  "(string \<Rightarrow> byte list) \<Rightarrow> SyncPayloadCache \<Rightarrow> SpaceMember \<Rightarrow> SyncPayloadCache" where
  "updateCacheWithMember_cached sha cached member =
     (let cached = cached\<lparr> pc_memberMap :=
                     Map_set (pc_memberMap cached) (sm_address member) member \<rparr>
      in cached\<lparr> pc_memberDigestMap :=
           Map_set (pc_memberDigestMap cached) (sm_address member)
             (createMemberDigest sha member) \<rparr>)"


subsection \<open>Storage adapter and service state\<close>

text \<open>
  The storage layer is an external collaborator. Its state is a type parameter \<open>'st\<close>
  and its asynchronous methods are functions on that state; a rejected promise is
  \<open>Inl\<close>. \<^verbatim>\<open>saveMessage\<close> is always called with four empty metadata strings, which the
  model leaves out.
\<close>

record 'st StorageAdapter =
  ad_getMessages :: "string \<Rightarrow> string \<Rightarrow> nat \<Rightarrow> 'st \<Rightarrow> sync_error + Message list"
  ad_getMessage :: "string \<Rightarrow> string \<Rightarrow> string \<Rightarrow> 'st \<Rightarrow> sync_error + Message option"
  ad_saveMessage :: "Message \<Rightarrow> nat \<Rightarrow> 'st \<Rightarrow> sync_error + 'st"
  ad_deleteMessage :: "string \<Rightarrow> 'st \<Rightarrow> sync_error + 'st"
  ad_getSpaceMembers :: "string \<Rightarrow> 'st \<Rightarrow> sync_error + SpaceMember list"
  ad_saveSpaceMember :: "string \<Rightarrow> SpaceMember \<Rightarrow> 'st \<Rightarrow> sync_error + 'st"

text \<open>The fields of a \<^verbatim>\<open>SyncService\<close> object, with the state of its storage.\<close>

record 'st SyncService =
  sv_storage :: 'st
  sv_maxMessages :: nat
  sv_requestExpiry :: nat
  sv_sessions :: "(string, SyncSession) js_map"
  sv_tombstones :: "DeletedMessageTombstone list"
  sv_payloadCache :: "(string, SyncPayloadCache) js_map"

definition getChannelMessages ::
  "'st StorageAdapter \<Rightarrow> 'st SyncService \<Rightarrow> string \<Rightarrow> string \<Rightarrow> sync_error + Message list" where
  "getChannelMessages ad svc spaceId channelId =
     ad_getMessages ad spaceId channelId (sv_maxMessages svc) (sv_storage svc)"

definition getPayloadCache ::
  "'st StorageAdapter \<Rightarrow> (string \<Rightarrow> byte list) \<Rightarrow> 'st SyncService \<Rightarrow> string \<Rightarrow> string \<Rightarrow>
   sync_error + (SyncPayloadCache \<times> 'st SyncService)" where
  "getPayloadCache ad sha svc spaceId channelId =
     (let key = getCacheKey spaceId channelId in
      case Map_get (sv_payloadCache svc) key of
        Some cached \<Rightarrow> Inr (cached, svc)
      | None \<Rightarrow>
          (case getChannelMessages ad svc spaceId channelId of
             Inl e \<Rightarrow> Inl e
           | Inr messages \<Rightarrow>
               (case ad_getSpaceMembers ad spaceId (sv_storage svc) of
                  Inl e \<Rightarrow> Inl e
                | Inr members \<Rightarrow>
                    (let payload = buildPayloadCache sha spaceId channelId messages members
                     in Inr (payload,
                             svc\<lparr> sv_payloadCache :=
                                    Map_set (sv_payloadCache svc) key payload \<rparr>)))))"

definition updateCacheWithMessage ::
  "(string \<Rightarrow> byte list) \<Rightarrow> 'st SyncService \<Rightarrow> string \<Rightarrow> string \<Rightarrow> Message \<Rightarrow> 'st SyncService" where
  "updateCacheWithMessage sha svc spaceId channelId message =
     (let key = getCacheKey spaceId channelId in
      case Map_get (sv_payloadCache svc) key of
        None \<Rightarrow> svc
      | Some cached \<Rightarrow>
          svc\<lparr> sv_payloadCache :=
                 Map_set (sv_payloadCache svc) key
                   (updateCacheWithMessage_cached sha cached message) \<rparr>)"

definition removeCacheMessage ::
  "(string \<Rightarrow> byte list) \<Rightarrow> 'st SyncService \<Rightarrow> string \<Rightarrow> string \<Rightarrow> string \<Rightarrow> 'st SyncService" where
  "removeCacheMessage sha svc spaceId channelId messageId =
     (let key = getCacheKey spaceId channelId in
      case Map_get (sv_payloadCache svc) key of
        None \<Rightarrow> svc
      | Some cached \<Rightarrow>
          svc\<lparr> sv_payloadCache :=
                 Map_set (sv_payloadCache svc) key
                   (removeCacheMessage_cached sha cached messageId) \<rparr>)"

definition updateCacheWithMember ::
  "(string \<Rightarrow> byte list) \<Rightarrow> 'st SyncService \<Rightarrow> string \<Rightarrow> string \<Rightarrow> SpaceMember \<Rightarrow>
   'st SyncService" where
  "updateCacheWithMember sha svc spaceId channelId member =
     (let key = getCacheKey spaceId channelId in
      case Map_get (sv_payloadCache svc) key of
        None \<Rightarrow> svc
      | Some cached \<Rightarrow>
          svc\<lparr> sv_payloadCache :=
                 Map_set (sv_payloadCache svc) key
                   (updateCacheWithMember_cached sha cached member) \<rparr>)"

subsection \<open>Step 1: sync request\<close>

record SyncRequestPayload =
  rq_inboxAddress :: string
  rq_expiry :: nat
  rq_summary :: SyncSummary

text \<open>\<open>now\<close> is the value of \<^verbatim>\<open>Date.now()\<close> at the call.\<close>

definition buildSyncRequest ::
  "'st StorageAdapter \<Rightarrow> (string \<Rightarrow> byte list) \<Rightarrow> nat \<Rightarrow> 'st SyncService \<Rightarrow> string \<Rightarrow> string \<Rightarrow>
   string \<Rightarrow> sync_error + (SyncRequestPayload \<times> 'st SyncService)" where
  "buildSyncRequest ad sha now svc spaceId channelId inboxAddress =
     (case getPayloadCache ad sha svc spaceId channelId of
        Inl e \<Rightarrow> Inl e
      | Inr (cache, svc) \<Rightarrow>
          (let expiry = now + sv_requestExpiry svc;
               svc = svc\<lparr> sv_sessions :=
                       Map_set (sv_sessions svc) spaceId
                         \<lparr> ss_spaceId = spaceId,
                           ss_channelId = channelId,
                           ss_expiry = expiry,
                           ss_candidates = [],
                           ss_timeout = None,
                           ss_inProgress = False,
                           ss_syncTarget = None \<rparr> \<rparr>
           in Inr (\<lparr> rq_inboxAddress = inboxAddress,
                     rq_expiry = expiry,
                     rq_summary = getSummary cache \<rparr>, svc)))"

subsection \<open>Step 5: sync delta\<close>

text \<open>
  \<^verbatim>\<open>buildSyncDelta\<close> is embedded in three parts: the \<^verbatim>\<open>for\<close> loop over the chunks,
  which pushes one payload per chunk index (\<open>messageChunkPayloads\<close>); the code after the
  loop, which adds the trailing payload or marks the last one final
  (\<open>finishPayloads\<close>); and the body that computes the diffs and deltas from the cache
  (\<open>buildSyncDelta_cached\<close>, everything after \<^verbatim>\<open>await this.getPayloadCache(...)\<close>).
\<close>

definition messageChunkPayloads ::
  "string \<Rightarrow> string \<Rightarrow> MessageDiffResult \<Rightarrow> MessageDelta \<Rightarrow> ReactionDelta \<Rightarrow>
   Message list list \<Rightarrow> SyncDeltaPayload list" where
  "messageChunkPayloads spaceId channelId messageDiff messageDelta reactionDelta chunks =
     map (\<lambda>i.
       let chunk = chunks ! i;
           isLast = (i = length chunks - 1);
           chunkDelta =
             \<lparr> mdl_spaceId = spaceId,
               mdl_channelId = channelId,
               mdl_newMessages =
                 filter (\<lambda>m. m_messageId m \<in> set (df_extraIds messageDiff)) chunk,
               mdl_updatedMessages =
                 filter (\<lambda>m. m_messageId m \<in> set (df_outdatedIds messageDiff)) chunk,
               mdl_deletedMessageIds =
                 (if isLast then mdl_deletedMessageIds messageDelta else []) \<rparr>
       in \<lparr> dp_messageDelta = Some chunkDelta,
            dp_reactionDelta =
              (if isLast \<and> length (rdl_added reactionDelta) > 0
               then Some reactionDelta else None),
            dp_memberDelta = None,
            dp_peerMapDelta = None,
            dp_isFinal = Some False \<rparr>)
       [0..<length chunks]"

definition finishPayloads ::
  "SyncDeltaPayload list \<Rightarrow> MemberDelta \<Rightarrow> PeerMapDelta \<Rightarrow> Message list \<Rightarrow>
   SyncDeltaPayload list" where
  "finishPayloads payloads memberDelta peerMapDelta allMessages =
     (let payloads =
            (if length (mbl_members memberDelta) > 0 \<or> length (pml_added peerMapDelta) > 0 \<or>
                length allMessages = 0
             then payloads @
                    [\<lparr> dp_messageDelta = None,
                       dp_reactionDelta = None,
                       dp_memberDelta =
                         (if length (mbl_members memberDelta) > 0 then Some memberDelta else None),
                       dp_peerMapDelta =
                         (if length (pml_added peerMapDelta) > 0 then Some peerMapDelta else None),
                       dp_isFinal = Some True \<rparr>]
             else if length payloads > 0
               then payloads[length payloads - 1 :=
                      (payloads ! (length payloads - 1))\<lparr> dp_isFinal := Some True \<rparr>]
               else payloads)
      in if length payloads = 0
         then payloads @
                [\<lparr> dp_messageDelta = None, dp_reactionDelta = None, dp_memberDelta = None,
                   dp_peerMapDelta = None, dp_isFinal = Some True \<rparr>]
         else payloads)"

definition buildSyncDelta_cached ::
  "(string \<Rightarrow> byte list) \<Rightarrow> (Message \<Rightarrow> nat) \<Rightarrow> SyncPayloadCache \<Rightarrow>
   DeletedMessageTombstone list \<Rightarrow> string \<Rightarrow> string \<Rightarrow> SyncManifest \<Rightarrow> MemberDigest list \<Rightarrow>
   nat list \<Rightarrow> (nat, PeerEntry) js_map \<Rightarrow> SyncDeltaPayload list" where
  "buildSyncDelta_cached sha sz cache tombstones spaceId channelId theirManifest
     theirMemberDigests theirPeerIds ourPeerEntries =
     (let ourPeerIds = Map_keys ourPeerEntries;
          ourManifest = getManifest sha cache;
          ourMemberDigests = getMemberDigests cache;
          messageDiff = computeMessageDiff ourManifest theirManifest;
          memberDiff = computeMemberDiff theirMemberDigests ourMemberDigests;
          peerDiff = computePeerDiff theirPeerIds ourPeerIds;
          messageDelta =
            buildMessageDelta spaceId channelId messageDiff (pc_messageMap cache) tombstones;
          reactionMessageIds = df_extraIds messageDiff @ df_outdatedIds messageDiff;
          reactionDelta =
            buildReactionDelta spaceId channelId (pc_messageMap cache) reactionMessageIds;
          memberDelta = buildMemberDelta spaceId memberDiff (pc_memberMap cache);
          peerMapDelta =
            \<lparr> pml_spaceId = spaceId,
              pml_added = lookupAll ourPeerEntries (pdf_extraPeerIds peerDiff),
              pml_updated = [],
              pml_removed = [] \<rparr>;
          allMessages = mdl_newMessages messageDelta @ mdl_updatedMessages messageDelta;
          payloads =
            (if length allMessages > 0
             then messageChunkPayloads spaceId channelId messageDiff messageDelta reactionDelta
                    (chunkMessages sz allMessages)
             else [])
      in finishPayloads payloads memberDelta peerMapDelta allMessages)"

definition buildSyncDelta ::
  "'st StorageAdapter \<Rightarrow> (string \<Rightarrow> byte list) \<Rightarrow> (Message \<Rightarrow> nat) \<Rightarrow> 'st SyncService \<Rightarrow>
   string \<Rightarrow> string \<Rightarrow> SyncManifest \<Rightarrow> MemberDigest list \<Rightarrow> nat list \<Rightarrow>
   (nat, PeerEntry) js_map \<Rightarrow> sync_error + (SyncDeltaPayload list \<times> 'st SyncService)" where
  "buildSyncDelta ad sha sz svc spaceId channelId theirManifest theirMemberDigests
     theirPeerIds ourPeerEntries =
     (case getPayloadCache ad sha svc spaceId channelId of
        Inl e \<Rightarrow> Inl e
      | Inr (cache, svc) \<Rightarrow>
          Inr (buildSyncDelta_cached sha sz cache (sv_tombstones svc) spaceId channelId
                 theirManifest theirMemberDigests theirPeerIds ourPeerEntries, svc))"


subsection \<open>Delta application\<close>

text \<open>
  A method that awaits storage calls one after the other stops at the first rejection:
  the result is the error, if any, and the storage state reached.
\<close>

fun seqOps :: "('st \<Rightarrow> sync_error + 'st) list \<Rightarrow> 'st \<Rightarrow> sync_error option \<times> 'st" where
  "seqOps [] st = (None, st)"
| "seqOps (f # fs) st = (case f st of Inl e \<Rightarrow> (Some e, st) | Inr st' \<Rightarrow> seqOps fs st')"

definition applyMessageDelta ::
  "'st StorageAdapter \<Rightarrow> MessageDelta \<Rightarrow> 'st \<Rightarrow> sync_error option \<times> 'st" where
  "applyMessageDelta ad delta st =
     seqOps (map (\<lambda>msg. ad_saveMessage ad msg (m_createdDate msg)) (mdl_newMessages delta) @
             map (\<lambda>msg. ad_saveMessage ad msg (m_createdDate msg)) (mdl_updatedMessages delta) @
             map (\<lambda>mid. ad_deleteMessage ad mid) (mdl_deletedMessageIds delta)) st"

text \<open>\<^verbatim>\<open>[...new Set(xs)]\<close>: the first occurrence of every element, in order.\<close>

definition setOrder :: "'a list \<Rightarrow> 'a list" where
  "setOrder xs = rev (remdups (rev xs))"

text \<open>In-place update of the element \<^verbatim>\<open>find\<close> returns (the first match).\<close>

fun updateFirst :: "('a \<Rightarrow> bool) \<Rightarrow> ('a \<Rightarrow> 'a) \<Rightarrow> 'a list \<Rightarrow> 'a list" where
  "updateFirst P f [] = []"
| "updateFirst P f (x # xs) = (if P x then f x # xs else x # updateFirst P f xs)"

definition addReaction :: "string \<Rightarrow> ReactionChange \<Rightarrow> Message \<Rightarrow> Message" where
  "addReaction spaceId addition message =
     (let reactions = m_reactions message in
      case find (\<lambda>r. r_emojiId r = rc_emojiId addition) reactions of
        Some existing \<Rightarrow>
          message\<lparr> m_reactions :=
            updateFirst (\<lambda>r. r_emojiId r = rc_emojiId addition)
              (\<lambda>r. let allMembers = setOrder (r_memberIds r @ rc_memberIds addition)
                    in r\<lparr> r_memberIds := allMembers, r_count := length allMembers \<rparr>)
              reactions \<rparr>
      | None \<Rightarrow>
          message\<lparr> m_reactions :=
            reactions @ [\<lparr> r_emojiId = rc_emojiId addition,
                            r_spaceId = spaceId,
                            r_emojiName = rc_emojiId addition,
                            r_count = length (rc_memberIds addition),
                            r_memberIds = rc_memberIds addition \<rparr>] \<rparr>)"

definition removeReaction :: "ReactionChange \<Rightarrow> Message \<Rightarrow> Message" where
  "removeReaction removal message =
     (let reactions = m_reactions message in
      case find (\<lambda>r. r_emojiId r = rc_emojiId removal) reactions of
        Some existing \<Rightarrow>
          (let memberIds = filter (\<lambda>i. i \<notin> set (rc_memberIds removal)) (r_memberIds existing);
               reactions = updateFirst (\<lambda>r. r_emojiId r = rc_emojiId removal)
                             (\<lambda>r. r\<lparr> r_memberIds := memberIds, r_count := length memberIds \<rparr>)
                             reactions
           in if length memberIds = 0
              then message\<lparr> m_reactions :=
                     filter (\<lambda>r. r_emojiId r \<noteq> rc_emojiId removal) reactions \<rparr>
              else message\<lparr> m_reactions := reactions \<rparr>)
      | None \<Rightarrow> message)"

text \<open>
  One loop of \<^verbatim>\<open>applyReactionDelta\<close>: read the message, change it when it exists, save
  it. \<open>change\<close> is \<open>addReaction\<close> in the first loop and \<open>removeReaction\<close> in the second.
\<close>

fun reactionLoop ::
  "'st StorageAdapter \<Rightarrow> string \<Rightarrow> string \<Rightarrow> (ReactionChange \<Rightarrow> Message \<Rightarrow> Message) \<Rightarrow>
   ReactionChange list \<Rightarrow> 'st \<Rightarrow> sync_error option \<times> 'st" where
  "reactionLoop ad spaceId channelId change [] st = (None, st)"
| "reactionLoop ad spaceId channelId change (c # rest) st =
     (case ad_getMessage ad spaceId channelId (rc_messageId c) st of
        Inl e \<Rightarrow> (Some e, st)
      | Inr None \<Rightarrow> reactionLoop ad spaceId channelId change rest st
      | Inr (Some message) \<Rightarrow>
          (let message = change c message in
           case ad_saveMessage ad message (m_createdDate message) st of
             Inl e \<Rightarrow> (Some e, st)
           | Inr st' \<Rightarrow> reactionLoop ad spaceId channelId change rest st'))"

definition applyReactionDelta ::
  "'st StorageAdapter \<Rightarrow> ReactionDelta \<Rightarrow> 'st \<Rightarrow> sync_error option \<times> 'st" where
  "applyReactionDelta ad delta st =
     (case reactionLoop ad (rdl_spaceId delta) (rdl_channelId delta)
             (addReaction (rdl_spaceId delta)) (rdl_added delta) st of
        (Some e, st') \<Rightarrow> (Some e, st')
      | (None, st') \<Rightarrow>
          reactionLoop ad (rdl_spaceId delta) (rdl_channelId delta) removeReaction
            (rdl_removed delta) st')"

definition applyMemberDelta ::
  "'st StorageAdapter \<Rightarrow> MemberDelta \<Rightarrow> 'st \<Rightarrow> sync_error option \<times> 'st" where
  "applyMemberDelta ad delta st =
     seqOps (map (\<lambda>member. ad_saveSpaceMember ad (mbl_spaceId delta) member)
               (mbl_members delta)) st"

text \<open>Run an optional sub-delta; an absent one is skipped.\<close>

definition applyOptional ::
  "('d \<Rightarrow> 'st \<Rightarrow> sync_error option \<times> 'st) \<Rightarrow> 'd option \<Rightarrow> 'st \<Rightarrow> sync_error option \<times> 'st" where
  "applyOptional f d st = (case d of None \<Rightarrow> (None, st) | Some x \<Rightarrow> f x st)"

text \<open>
  \<^verbatim>\<open>delta.messageDelta?.spaceId || delta.memberDelta?.spaceId\<close>: the space of the
  message delta when that is a non-empty string, else the space of the member delta,
  when there is one.
\<close>

definition deltaSpaceId :: "SyncDeltaPayload \<Rightarrow> string option" where
  "deltaSpaceId delta =
     (let a = map_option mdl_spaceId (dp_messageDelta delta)
      in if truthy a then a else map_option mbl_spaceId (dp_memberDelta delta))"

text \<open>
  \<^verbatim>\<open>applySyncDelta\<close>. The result is the error thrown, if any, and the service after the
  call; a rejection skips the rest of the method, the session clean-up included.
\<close>

definition applySyncDelta ::
  "'st StorageAdapter \<Rightarrow> 'st SyncService \<Rightarrow> SyncDeltaPayload \<Rightarrow>
   sync_error option \<times> 'st SyncService" where
  "applySyncDelta ad svc delta =
     (case applyOptional (applyMessageDelta ad) (dp_messageDelta delta) (sv_storage svc) of
        (Some e, st) \<Rightarrow> (Some e, svc\<lparr> sv_storage := st \<rparr>)
      | (None, st) \<Rightarrow>
     (case applyOptional (applyReactionDelta ad) (dp_reactionDelta delta) st of
        (Some e, st) \<Rightarrow> (Some e, svc\<lparr> sv_storage := st \<rparr>)
      | (None, st) \<Rightarrow>
     (case applyOptional (applyMemberDelta ad) (dp_memberDelta delta) st of
        (Some e, st) \<Rightarrow> (Some e, svc\<lparr> sv_storage := st \<rparr>)
      | (None, st) \<Rightarrow>
          (let svc = svc\<lparr> sv_storage := st \<rparr> in
           if dp_isFinal delta = Some True then
             (let spaceId = deltaSpaceId delta in
              if truthy spaceId
              then (None, svc\<lparr> sv_sessions := Map_delete (sv_sessions svc) (orEmpty spaceId) \<rparr>)
              else (None, svc))
           else (None, svc)))))"

subsection \<open>Tombstones\<close>

definition addTombstone :: "'st SyncService \<Rightarrow> DeletedMessageTombstone \<Rightarrow> 'st SyncService" where
  "addTombstone svc tombstone = svc\<lparr> sv_tombstones := sv_tombstones svc @ [tombstone] \<rparr>"

definition getTombstones :: "'st SyncService \<Rightarrow> DeletedMessageTombstone list" where
  "getTombstones svc = sv_tombstones svc"

text \<open>
  The storage of the repository's service tests (\<^verbatim>\<open>createMockStorage\<close>): reads answer
  from two fixed arrays, writes resolve without effect.
\<close>

definition mockStorage :: "(Message list \<times> SpaceMember list) StorageAdapter" where
  "mockStorage =
     \<lparr> ad_getMessages = (\<lambda>spaceId channelId limit st. Inr (fst st)),
       ad_getMessage = (\<lambda>spaceId channelId messageId st.
                          Inr (find (\<lambda>m. m_messageId m = messageId) (fst st))),
       ad_saveMessage = (\<lambda>message createdDate st. Inr st),
       ad_deleteMessage = (\<lambda>messageId st. Inr st),
       ad_getSpaceMembers = (\<lambda>spaceId st. Inr (snd st)),
       ad_saveSpaceMember = (\<lambda>spaceId member st. Inr st) \<rparr>"

text \<open>\<^verbatim>\<open>new SyncService({ storage })\<close> with the default configuration.\<close>

definition newSyncService :: "'st \<Rightarrow> 'st SyncService" where
  "newSyncService storage =
     \<lparr> sv_storage = storage,
       sv_maxMessages = 1000,
       sv_requestExpiry = DEFAULT_SYNC_EXPIRY_MS,
       sv_sessions = [],
       sv_tombstones = [],
       sv_payloadCache = [] \<rparr>"


section \<open>Specification-side notions and sample data\<close>

text \<open>
  The time a digest counts as last modified at: \<^verbatim>\<open>d.modifiedDate || d.createdDate\<close>,
  the creation date when the modification date is absent (or 0).
\<close>

definition effectiveModified :: "MessageDigest \<Rightarrow> nat" where
  "effectiveModified d = orNum (md_modifiedDate d) (md_createdDate d)"

text \<open>
  The digest a manifest holds for a message ID: the last one in the list carrying that
  ID (the only one when IDs are unique).
\<close>

definition digestFor :: "SyncManifest \<Rightarrow> string \<Rightarrow> MessageDigest option" where
  "digestFor manifest mid = find (\<lambda>d. md_messageId d = mid) (rev (mf_digests manifest))"

text \<open>
  A chunk is well-formed when it is non-empty and either fits the size cap or is a single
  oversized message.
\<close>

definition goodChunk :: "('m \<Rightarrow> nat) \<Rightarrow> 'm list \<Rightarrow> bool" where
  "goodChunk sz c \<longleftrightarrow>
     c \<noteq> [] \<and>
     (sum_list (map sz c) \<le> MAX_CHUNK_SIZE \<or> (\<exists>m. c = [m] \<and> sz m > MAX_CHUNK_SIZE))"

text \<open>The message and member builders of the repository's service tests.\<close>

definition createTestMessage :: "string \<Rightarrow> string \<Rightarrow> string \<Rightarrow> string \<Rightarrow> nat \<Rightarrow> Message" where
  "createTestMessage mid spaceId channelId text createdDate =
     \<lparr> m_channelId = channelId,
       m_spaceId = spaceId,
       m_messageId = mid,
       m_digestAlgorithm = ''sha256'',
       m_nonce = ''test-nonce'',
       m_createdDate = createdDate,
       m_modifiedDate = createdDate,
       m_lastModifiedHash = ''hash'',
       m_content = PostMessage ''sender-address'' (TextString text) None,
       m_reactions = [],
       m_mentions = \<lparr> mn_memberIds = [], mn_roleIds = [], mn_channelIds = [],
                      mn_everyone = None, mn_totalMentionCount = None \<rparr> \<rparr>"

definition createTestMember :: "string \<Rightarrow> string option \<Rightarrow> SpaceMember" where
  "createTestMember address displayName =
     \<lparr> sm_address = address,
       sm_name = None,
       sm_display_name = displayName,
       sm_profile_image = None,
       sm_bio = None,
       sm_inbox_address = ''inbox-'' @ address,
       sm_isKicked = None \<rparr>"

text \<open>
  Stand-ins for the two parameters, used only to run the model on sample inputs: a size
  that charges one MiB per character of a post's text, and a digest that keeps the first
  32 bytes of the zero-padded input. Every theorem below holds for all sizes and digests.
\<close>

definition sizeMiB :: "Message \<Rightarrow> nat" where
  "sizeMiB m =
     (case m_content m of
        PostMessage _ (TextString t) _ \<Rightarrow> length t * (1024 * 1024)
      | _ \<Rightarrow> 0)"

definition sampleSha :: "string \<Rightarrow> byte list" where
  "sampleSha s = take 32 (map (\<lambda>c. of_nat (of_char c)) s @ replicate 32 0)"

text \<open>
  Two manifests over the IDs \<open>a\<close>, \<open>b\<close>, \<open>c\<close>, \<open>d\<close>: \<open>a\<close> is only ours, \<open>b\<close> only theirs,
  \<open>c\<close> differs with theirs newer, \<open>d\<close> differs with ours newer.
\<close>

definition sampleOurManifest :: SyncManifest where
  "sampleOurManifest =
     \<lparr> mf_spaceId = ''s1'', mf_channelId = ''c1'', mf_messageCount = 3,
       mf_oldestTimestamp = 1000, mf_newestTimestamp = 4000,
       mf_digests =
         [\<lparr> md_messageId = ''a'', md_createdDate = 1000, md_contentHash = ''h1'',
            md_modifiedDate = None \<rparr>,
          \<lparr> md_messageId = ''c'', md_createdDate = 3000, md_contentHash = ''h3'',
            md_modifiedDate = None \<rparr>,
          \<lparr> md_messageId = ''d'', md_createdDate = 4000, md_contentHash = ''h4'',
            md_modifiedDate = Some 6000 \<rparr>],
       mf_reactionDigests = [] \<rparr>"

definition sampleTheirManifest :: SyncManifest where
  "sampleTheirManifest =
     \<lparr> mf_spaceId = ''s1'', mf_channelId = ''c1'', mf_messageCount = 3,
       mf_oldestTimestamp = 2000, mf_newestTimestamp = 4000,
       mf_digests =
         [\<lparr> md_messageId = ''b'', md_createdDate = 2000, md_contentHash = ''h2'',
            md_modifiedDate = None \<rparr>,
          \<lparr> md_messageId = ''c'', md_createdDate = 3000, md_contentHash = ''h3x'',
            md_modifiedDate = Some 5000 \<rparr>,
          \<lparr> md_messageId = ''d'', md_createdDate = 4000, md_contentHash = ''h4x'',
            md_modifiedDate = Some 5000 \<rparr>],
       mf_reactionDigests = [] \<rparr>"

text \<open>The cache of the service tests: one message created at 1000, one member.\<close>

definition sampleCache :: SyncPayloadCache where
  "sampleCache =
     buildPayloadCache sampleSha ''s1'' ''c1''
       [createTestMessage ''m1'' ''s1'' ''c1'' ''xx'' 1000]
       [createTestMember ''addr1'' None]"

text \<open>A payload carries a non-empty reaction delta.\<close>

definition nonEmptyReactionDelta :: "SyncDeltaPayload \<Rightarrow> bool" where
  "nonEmptyReactionDelta p =
     (case dp_reactionDelta p of
        None \<Rightarrow> False
      | Some rd \<Rightarrow> rdl_added rd \<noteq> [] \<or> rdl_removed rd \<noteq> [])"

text \<open>
  Exactly one payload of the sequence is final, and it is the last one: the sequence is
  not empty, and the payload at index \<open>i\<close> has \<^verbatim>\<open>isFinal = true\<close> iff \<open>i\<close> is the last
  index.
\<close>

definition oneFinalLast :: "SyncDeltaPayload list \<Rightarrow> bool" where
  "oneFinalLast payloads \<longleftrightarrow>
     payloads \<noteq> [] \<and>
     (\<forall>i<length payloads. dp_isFinal (payloads ! i) = Some True \<longleftrightarrow> Suc i = length payloads)"

text \<open>
  A non-empty reaction delta sits in at most one payload, the last message chunk: a
  payload that carries one has a message delta, no later payload has a message delta,
  and any two payloads that carry one are the same payload.
\<close>

definition reactionsInLastChunk :: "SyncDeltaPayload list \<Rightarrow> bool" where
  "reactionsInLastChunk payloads \<longleftrightarrow>
     (\<forall>i<length payloads. nonEmptyReactionDelta (payloads ! i) \<longrightarrow>
        dp_messageDelta (payloads ! i) \<noteq> None \<and>
        (\<forall>j<length payloads. i < j \<longrightarrow> dp_messageDelta (payloads ! j) = None)) \<and>
     (\<forall>i<length payloads. \<forall>j<length payloads.
        nonEmptyReactionDelta (payloads ! i) \<and> nonEmptyReactionDelta (payloads ! j) \<longrightarrow> i = j)"

text \<open>
  What the chunk loop guarantees about the payloads it pushes: none is final, each has a
  message delta, and only the last may carry a non-empty reaction delta.
\<close>

definition chunkPayloadsShape :: "SyncDeltaPayload list \<Rightarrow> bool" where
  "chunkPayloadsShape ms \<longleftrightarrow>
     (\<forall>i<length ms. dp_isFinal (ms ! i) = Some False \<and> dp_messageDelta (ms ! i) \<noteq> None \<and>
        (nonEmptyReactionDelta (ms ! i) \<longrightarrow> Suc i = length ms))"

text \<open>A message with one reaction, and the storage of a peer that holds it and one member.\<close>

definition sampleReactedMessage :: Message where
  "sampleReactedMessage =
     (createTestMessage ''m1'' ''s1'' ''c1'' ''xx'' 1000)
       \<lparr> m_reactions := [\<lparr> r_emojiId = ''thumbsup'', r_spaceId = ''s1'',
                            r_emojiName = ''thumbsup'', r_count = 1,
                            r_memberIds = [''addr1''] \<rparr>] \<rparr>"

definition sampleStorage :: "Message list \<times> SpaceMember list" where
  "sampleStorage = ([sampleReactedMessage], [createTestMember ''addr1'' None])"

text \<open>\<^verbatim>\<open>createManifest(spaceId, channelId, [])\<close>: the manifest of a peer with no messages.\<close>

definition emptyManifest :: SyncManifest where
  "emptyManifest =
     \<lparr> mf_spaceId = ''s1'', mf_channelId = ''c1'', mf_messageCount = 0,
       mf_oldestTimestamp = 0, mf_newestTimestamp = 0, mf_digests = [],
       mf_reactionDigests = [] \<rparr>"

text \<open>The two payloads \<^verbatim>\<open>buildSyncDelta\<close> answers that peer with.\<close>

definition samplePayloads :: "SyncDeltaPayload list" where
  "samplePayloads =
     [\<lparr> dp_messageDelta =
          Some \<lparr> mdl_spaceId = ''s1'', mdl_channelId = ''c1'',
                 mdl_newMessages = [sampleReactedMessage], mdl_updatedMessages = [],
                 mdl_deletedMessageIds = [] \<rparr>,
        dp_reactionDelta =
          Some \<lparr> rdl_spaceId = ''s1'', rdl_channelId = ''c1'',
                 rdl_added = [\<lparr> rc_messageId = ''m1'', rc_emojiId = ''thumbsup'',
                                 rc_memberIds = [''addr1''] \<rparr>],
                 rdl_removed = [] \<rparr>,
        dp_memberDelta = None, dp_peerMapDelta = None, dp_isFinal = Some False \<rparr>,
      \<lparr> dp_messageDelta = None, dp_reactionDelta = None,
        dp_memberDelta =
          Some \<lparr> mbl_spaceId = ''s1'', mbl_members = [createTestMember ''addr1'' None],
                 mbl_removedAddresses = [] \<rparr>,
        dp_peerMapDelta = None, dp_isFinal = Some True \<rparr>]"

text \<open>A message whose content tag is not one of the declared variants.\<close>

definition pollMessage :: Message where
  "pollMessage =
     (createTestMessage ''m9'' ''s1'' ''c1'' [] 1000)
       \<lparr> m_content := UnknownContent ''sender-address'' ''poll'' \<rparr>"

text \<open>
  Two final payloads: the empty one \<^verbatim>\<open>buildSyncDelta\<close> emits when nothing differs, and
  one that carries only a peer-map delta of space \<open>s1\<close>.
\<close>

definition emptyFinalPayload :: SyncDeltaPayload where
  "emptyFinalPayload =
     \<lparr> dp_messageDelta = None, dp_reactionDelta = None, dp_memberDelta = None,
       dp_peerMapDelta = None, dp_isFinal = Some True \<rparr>"

definition peerOnlyFinalPayload :: SyncDeltaPayload where
  "peerOnlyFinalPayload =
     \<lparr> dp_messageDelta = None, dp_reactionDelta = None, dp_memberDelta = None,
       dp_peerMapDelta =
         Some \<lparr> pml_spaceId = ''s1'',
                pml_added = [\<lparr> pe_peerId = 7, pe_publicKey = ''pk7'',
                                pe_identityPublicKey = None,
                                pe_signedPrePublicKey = None \<rparr>],
                pml_updated = [], pml_removed = [] \<rparr>,
       dp_isFinal = Some True \<rparr>"

text \<open>The deleted message IDs a payload carries, and whether it asks for reaction removals.\<close>

definition deletedIdsOf :: "SyncDeltaPayload \<Rightarrow> string list" where
  "deletedIdsOf p =
     (case dp_messageDelta p of None \<Rightarrow> [] | Some d \<Rightarrow> mdl_deletedMessageIds d)"

definition removesNoReactions :: "SyncDeltaPayload \<Rightarrow> bool" where
  "removesNoReactions p =
     (case dp_reactionDelta p of None \<Rightarrow> True | Some rd \<Rightarrow> rdl_removed rd = [])"

text \<open>
  A peer that has deleted message \<open>m1\<close> of channel \<open>(s1, c1)\<close> and recorded the
  tombstone, and the manifest of another peer that still holds \<open>m1\<close>.
\<close>

definition tombstoneService :: "(Message list \<times> SpaceMember list) SyncService" where
  "tombstoneService =
     addTombstone (newSyncService ([], []))
       \<lparr> ts_messageId = ''m1'', ts_spaceId = ''s1'', ts_channelId = ''c1'',
         ts_deletedAt = 4000 \<rparr>"

definition manifestWithM1 :: SyncManifest where
  "manifestWithM1 =
     \<lparr> mf_spaceId = ''s1'', mf_channelId = ''c1'', mf_messageCount = 1,
       mf_oldestTimestamp = 1000, mf_newestTimestamp = 1000,
       mf_digests = [\<lparr> md_messageId = ''m1'', md_createdDate = 1000, md_contentHash = ''h1'',
                        md_modifiedDate = None \<rparr>],
       mf_reactionDigests = [] \<rparr>"

text \<open>
  Posts whose text is \<open>n\<close> euro signs (three bytes of UTF-8 and one UTF-16 code unit
  each), and posts whose text is \<open>n\<close> letters \<open>x\<close>.
\<close>

definition euroSign :: string where
  "euroSign = [CHR 0xE2, CHR 0x82, CHR 0xAC]"

definition euroText :: "nat \<Rightarrow> string" where
  "euroText n = concat (replicate n euroSign)"

definition euroPost :: "string \<Rightarrow> nat \<Rightarrow> Message" where
  "euroPost mid n = createTestMessage mid ''s1'' ''c1'' (euroText n) 1000"

definition asciiText :: "nat \<Rightarrow> string" where
  "asciiText n = replicate n CHR ''x''"

definition asciiPost :: "string \<Rightarrow> nat \<Rightarrow> Message" where
  "asciiPost mid n = createTestMessage mid ''s1'' ''c1'' (asciiText n) 1000"

section \<open>Verified properties\<close>

subsection \<open>The empty cache\<close>

lemma byteToHex_zero: "byteToHex 0 = ''00''"
  by (simp add: byteToHex_def hexDigit_def)

lemma bytesToHex_replicate_zero: "bytesToHex (replicate n 0) = concat (replicate n ''00'')"
  by (induction n) (simp_all add: bytesToHex_def byteToHex_zero)

lemma bytesToHex_zero32:
  "bytesToHex (replicate 32 0) =
     ''0000000000000000000000000000000000000000000000000000000000000000''"
  unfolding bytesToHex_replicate_zero by (simp add: numeral_eq_Suc)

text \<open>
  Claim C8. The summary of a payload cache built from zero messages and zero members has
  message count 0 and member count 0, oldest and newest timestamp 0, and its manifest
  hash is the 64-character lower-case hex string of 32 zero bytes.
\<close>

theorem empty_cache_summary:
  "getSummary (buildPayloadCache sha spaceId channelId [] []) =
     \<lparr> su_memberCount = 0, su_messageCount = 0, su_newestMessageTimestamp = 0,
       su_oldestMessageTimestamp = 0,
       su_manifestHash =
         Some ''0000000000000000000000000000000000000000000000000000000000000000'' \<rparr>"
  by (simp add: getSummary_def getManifestHash_def buildPayloadCache_def Map_new_def
      Map_size_def bytesToHex_zero32)

subsection \<open>Chunking\<close>

lemma chunkLoop_concat:
  "concat (chunkLoop sz ms chunks cur cs) = concat chunks @ cur @ ms"
  by (induction sz ms chunks cur cs rule: chunkLoop.induct) (simp_all add: Let_def)

lemma chunkLoop_good:
  "\<forall>c\<in>set chunks. goodChunk sz c \<Longrightarrow> sum_list (map sz cur) = cs \<Longrightarrow> cs \<le> MAX_CHUNK_SIZE \<Longrightarrow>
   \<forall>c\<in>set (chunkLoop sz ms chunks cur cs). goodChunk sz c"
proof (induction sz ms chunks cur cs rule: chunkLoop.induct)
  case (1 sz chunks currentChunk currentSize)
  then show ?case by (simp add: goodChunk_def)
next
  case (2 sz msg rest chunks currentChunk currentSize)
  show ?case
  proof (cases "sz msg > MAX_CHUNK_SIZE")
    case True
    show ?thesis
    proof (cases "currentChunk = []")
      case e: True
      have "\<forall>c\<in>set (chunks @ [[msg]]). goodChunk sz c"
        using 2(5) True by (simp add: goodChunk_def)
      from 2(2)[OF refl True _ this 2(6) 2(7)] e True show ?thesis by (simp add: Let_def)
    next
      case ne: False
      have "\<forall>c\<in>set (chunks @ [currentChunk] @ [[msg]]). goodChunk sz c"
        using 2(5) True ne 2(6) 2(7) by (simp add: goodChunk_def)
      from 2(1)[OF refl True _ this] ne True show ?thesis by (simp add: Let_def)
    qed
  next
    case False
    show ?thesis
    proof (cases "currentSize + sz msg > MAX_CHUNK_SIZE \<and> length currentChunk > 0")
      case f: True
      have g: "\<forall>c\<in>set (chunks @ [currentChunk]). goodChunk sz c"
        using 2(5) f 2(6) 2(7) by (simp add: goodChunk_def)
      from 2(3)[OF refl False f g] False f show ?thesis by (simp add: Let_def)
    next
      case nf: False
      have s: "sum_list (map sz (currentChunk @ [msg])) = currentSize + sz msg"
        using 2(6) by simp
      have le: "currentSize + sz msg \<le> MAX_CHUNK_SIZE"
        using nf False 2(6) by (cases currentChunk) auto
      from 2(4)[OF refl False nf 2(5) s le] False le show ?thesis by (simp add: Let_def)
    qed
  qed
qed

lemma goodChunk_props:
  assumes "goodChunk sz c"
  shows "c \<noteq> []" "2 \<le> length c \<longrightarrow> sum_list (map sz c) \<le> MAX_CHUNK_SIZE"
    "\<forall>m\<in>set c. sz m > MAX_CHUNK_SIZE \<longrightarrow> c = [m]"
proof -
  show "c \<noteq> []" using assms by (simp add: goodChunk_def)
  show "2 \<le> length c \<longrightarrow> sum_list (map sz c) \<le> MAX_CHUNK_SIZE"
    using assms by (auto simp: goodChunk_def)
  show "\<forall>m\<in>set c. sz m > MAX_CHUNK_SIZE \<longrightarrow> c = [m]"
  proof (intro ballI impI)
    fix m assume m: "m \<in> set c" "sz m > MAX_CHUNK_SIZE"
    have "sz m \<le> sum_list (map sz c)" using m(1) by (simp add: member_le_sum_list)
    with m assms show "c = [m]" by (auto simp: goodChunk_def)
  qed
qed

lemma chunkMessages_good: "\<forall>c\<in>set (chunkMessages sz messages). goodChunk sz c"
  unfolding chunkMessages_def by (rule chunkLoop_good) simp_all

lemma chunkMessages_concat: "concat (chunkMessages sz messages) = messages"
  by (simp add: chunkMessages_def chunkLoop_concat)

text \<open>Sizes of the sample posts under \<^verbatim>\<open>JSON.stringify\<close>, in code units and in bytes.\<close>

lemma decimal_1000: "decimal 1000 = ''1000''"
  by (simp add: decimal.simps)

lemma utf16Length_simps [simp]:
  "utf16Length [] = 0"
  "utf16Length (c # s) = utf16Units c + utf16Length s"
  "utf16Length (s @ t) = utf16Length s + utf16Length t"
  by (simp_all add: utf16Length_def)

lemma euroText_Suc: "euroText (Suc n) = euroSign @ euroText n"
  by (simp add: euroText_def)

lemma escape_euroText: "concat (map jsonEscapeChar (euroText n)) = euroText n"
  by (induction n) (simp_all add: euroText_Suc, simp_all add: euroText_def euroSign_def jsonEscapeChar_def)

lemma utf16Length_euroText: "utf16Length (euroText n) = n"
  by (induction n) (simp_all add: euroText_Suc, simp_all add: euroText_def euroSign_def utf16Units_def)

lemma length_euroText: "length (euroText n) = 3 * n"
  by (induction n) (simp_all add: euroText_Suc, simp_all add: euroText_def euroSign_def)

lemma escape_asciiText: "concat (map jsonEscapeChar (asciiText n)) = asciiText n"
  by (induction n) (simp_all add: asciiText_def jsonEscapeChar_def)

lemma utf16Length_asciiText: "utf16Length (asciiText n) = n"
  by (induction n) (simp_all add: asciiText_def utf16Units_def)

lemma length_asciiText: "length (asciiText n) = n"
  by (simp add: asciiText_def)

lemma jsonLength_post:
  "jsonLength (createTestMessage mid ''s1'' ''c1'' text 1000) =
     utf16Length (concat (map jsonEscapeChar mid)) +
     utf16Length (concat (map jsonEscapeChar text)) + 297"
  by (simp add: jsonLength_def JSON_stringify_def createTestMessage_def jsonObject_def
      jsonString_def jsonArray_def jsonMentions_def jsonText_def List.map_filter_def
      decimal_1000 jsonEscapeChar_def utf16Units_def)

lemma jsonBytes_post:
  "jsonBytes (createTestMessage mid ''s1'' ''c1'' text 1000) =
     length (concat (map jsonEscapeChar mid)) +
     length (concat (map jsonEscapeChar text)) + 297"
  by (simp add: jsonBytes_def JSON_stringify_def createTestMessage_def jsonObject_def
      jsonString_def jsonArray_def jsonMentions_def jsonText_def List.map_filter_def
      decimal_1000 jsonEscapeChar_def)



lemma escape_m1: "concat (map jsonEscapeChar ''m1'') = ''m1''"
  and escape_m2: "concat (map jsonEscapeChar ''m2'') = ''m2''"
  and escape_m3: "concat (map jsonEscapeChar ''m3'') = ''m3''"
  and escape_m4: "concat (map jsonEscapeChar ''m4'') = ''m4''"
  by (simp_all add: jsonEscapeChar_def)

lemma utf16Length_m: "utf16Length ''m1'' = 2" "utf16Length ''m2'' = 2"
  "utf16Length ''m3'' = 2" "utf16Length ''m4'' = 2"
  by (simp_all add: utf16Units_def)

lemma jsonLength_euroPost:
  "concat (map jsonEscapeChar mid) = mid \<Longrightarrow>
   jsonLength (euroPost mid n) = utf16Length mid + n + 297"
  by (simp add: euroPost_def jsonLength_post escape_euroText utf16Length_euroText)

lemma jsonBytes_euroPost:
  "concat (map jsonEscapeChar mid) = mid \<Longrightarrow>
   jsonBytes (euroPost mid n) = length mid + 3 * n + 297"
  by (simp add: euroPost_def jsonBytes_post escape_euroText length_euroText)

lemma jsonLength_asciiPost:
  "concat (map jsonEscapeChar mid) = mid \<Longrightarrow>
   jsonLength (asciiPost mid n) = utf16Length mid + n + 297"
  by (simp add: asciiPost_def jsonLength_post escape_asciiText utf16Length_asciiText)


lemma euro_sizes:
  "jsonLength (euroPost ''m1'' 2000000) = 2000299"
  "jsonLength (euroPost ''m2'' 2000000) = 2000299"
  "jsonBytes (euroPost ''m1'' 2000000) = 6000299"
  "jsonBytes (euroPost ''m2'' 2000000) = 6000299"
  by (simp_all add: jsonLength_euroPost[OF escape_m1] jsonLength_euroPost[OF escape_m2]
      jsonBytes_euroPost[OF escape_m1] jsonBytes_euroPost[OF escape_m2] utf16Units_def)

lemma ascii_sizes:
  "jsonLength (asciiPost ''m1'' 2000000) = 2000299"
  "jsonLength (asciiPost ''m2'' 2000000) = 2000299"
  "jsonLength (asciiPost ''m3'' 6000000) = 6000299"
  "jsonLength (asciiPost ''m4'' 1000000) = 1000299"
  by (simp_all add: jsonLength_asciiPost[OF escape_m1] jsonLength_asciiPost[OF escape_m2]
      jsonLength_asciiPost[OF escape_m3] jsonLength_asciiPost[OF escape_m4] utf16Units_def)

text \<open>
  Claim C7 bounds the total serialized byte size of a chunk. \<^verbatim>\<open>chunkMessages\<close> measures
  a message by \<^verbatim>\<open>JSON.stringify(msg).length\<close>, which counts UTF-16 code units. Two
  posts of 2,000,000 euro signs each have 2,000,299 code units and 6,000,299 bytes: the
  code puts them into one chunk, whose byte size is above \<^verbatim>\<open>MAX_CHUNK_SIZE\<close>, and
  each of them alone is above \<^verbatim>\<open>MAX_CHUNK_SIZE\<close> in bytes without being alone in
  its chunk.
\<close>

theorem chunk_bytes_counterexample:
  "chunkMessages jsonLength [euroPost ''m1'' 2000000, euroPost ''m2'' 2000000] =
     [[euroPost ''m1'' 2000000, euroPost ''m2'' 2000000]] \<and>
   sum_list (map jsonBytes [euroPost ''m1'' 2000000, euroPost ''m2'' 2000000]) > MAX_CHUNK_SIZE \<and>
   jsonBytes (euroPost ''m1'' 2000000) > MAX_CHUNK_SIZE"
  by (simp add: chunkMessages_def euro_sizes MAX_CHUNK_SIZE_def)

text \<open>
  Claim C7, amended. For every input list, the chunks of \<^verbatim>\<open>chunkMessages\<close>
  concatenate to the input in the same order; no chunk is empty; every chunk of two or
  more messages has total size at most \<^verbatim>\<open>MAX_CHUNK_SIZE\<close>; and a message whose size
  exceeds \<^verbatim>\<open>MAX_CHUNK_SIZE\<close> is the only message of its chunk, never split. Size is
  the measure the loop is run with: this holds for every measure \<open>sz\<close>, and the code's
  is \<^verbatim>\<open>JSON.stringify(msg).length\<close>, the number of UTF-16 code units of the serialized
  message (\<open>jsonLength\<close>), not its number of bytes.
\<close>

theorem chunkMessages_partition:
  "concat (chunkMessages sz messages) = messages \<and>
   (\<forall>chunk\<in>set (chunkMessages sz messages).
      chunk \<noteq> [] \<and>
      (2 \<le> length chunk \<longrightarrow> sum_list (map sz chunk) \<le> MAX_CHUNK_SIZE) \<and>
      (\<forall>m\<in>set chunk. sz m > MAX_CHUNK_SIZE \<longrightarrow> chunk = [m]))"
  using chunkMessages_good[of sz messages] goodChunk_props[of sz]
  by (simp add: chunkMessages_concat)

theorem chunkMessages_partition_witness:
  "chunkMessages jsonLength
     [asciiPost ''m1'' 2000000, asciiPost ''m2'' 2000000, asciiPost ''m3'' 6000000,
      asciiPost ''m4'' 1000000] =
     [[asciiPost ''m1'' 2000000, asciiPost ''m2'' 2000000], [asciiPost ''m3'' 6000000],
      [asciiPost ''m4'' 1000000]] \<and>
   concat (chunkMessages jsonLength
     [asciiPost ''m1'' 2000000, asciiPost ''m2'' 2000000, asciiPost ''m3'' 6000000,
      asciiPost ''m4'' 1000000]) =
     [asciiPost ''m1'' 2000000, asciiPost ''m2'' 2000000, asciiPost ''m3'' 6000000,
      asciiPost ''m4'' 1000000] \<and>
   sum_list (map jsonLength [asciiPost ''m1'' 2000000, asciiPost ''m2'' 2000000])
     \<le> MAX_CHUNK_SIZE \<and>
   jsonLength (asciiPost ''m3'' 6000000) > MAX_CHUNK_SIZE"
  using chunkMessages_partition[of jsonLength
      "[asciiPost ''m1'' 2000000, asciiPost ''m2'' 2000000, asciiPost ''m3'' 6000000,
        asciiPost ''m4'' 1000000]"]
  by (simp add: chunkMessages_def ascii_sizes MAX_CHUNK_SIZE_def)

subsection \<open>Message diff\<close>

lemma map_of_Map_new_aux:
  "map_of (foldl (\<lambda>m (k, v). Map_set m k v) acc pairs) = map_of (rev pairs @ acc)"
proof (induction pairs arbitrary: acc)
  case Nil
  then show ?case by simp
next
  case (Cons p pairs)
  obtain k v where p: "p = (k, v)" by (cases p)
  have "map_of (foldl (\<lambda>m (k, v). Map_set m k v) acc (p # pairs)) =
        map_of (rev pairs @ Map_set acc k v)"
    unfolding p foldl_Cons prod.case by (rule Cons.IH)
  also have "\<dots> = map_of (rev (p # pairs) @ acc)"
    by (rule ext) (simp add: p Map_set_def update_conv' map_add_def split: option.splits)
  finally show ?case .
qed

lemma map_of_Map_new: "map_of (Map_new pairs) = map_of (rev pairs)"
  by (simp add: Map_new_def map_of_Map_new_aux)

lemma distinct_Map_new_aux:
  "distinct (map fst acc) \<Longrightarrow> distinct (map fst (foldl (\<lambda>m (k, v). Map_set m k v) acc pairs))"
proof (induction pairs arbitrary: acc)
  case Nil
  then show ?case by simp
next
  case (Cons p pairs)
  obtain k v where p: "p = (k, v)" by (cases p)
  have "distinct (map fst (Map_set acc k v))"
    using Cons.prems by (simp add: Map_set_def distinct_update)
  from Cons.IH[OF this] show ?case
    unfolding p foldl_Cons prod.case .
qed

lemma distinct_Map_new: "distinct (map fst (Map_new pairs))"
  by (simp add: Map_new_def distinct_Map_new_aux)

lemma map_of_keyed_find: "map_of (map (\<lambda>d. (f d, d)) xs) k = find (\<lambda>d. f d = k) xs"
  by (induction xs) auto

lemma Map_get_digests:
  "Map_get (Map_new (map (\<lambda>d. (md_messageId d, d)) (mf_digests manifest))) mid = digestFor manifest mid"
  by (simp add: Map_get_def map_of_Map_new digestFor_def rev_map map_of_keyed_find)

lemma Map_new_mem:
  "(k, v) \<in> set (Map_new pairs) \<longleftrightarrow> Map_get (Map_new pairs) k = Some v"
  using distinct_Map_new[of pairs] by (auto simp: Map_get_def)

lemma messageDiffLoop_missing:
  "set (fst (messageDiffLoop ours ts (mi, oi))) =
     set mi \<union> {i. \<exists>td. (i, td) \<in> set ts \<and> Map_get ours i = None}"
  by (induction ours ts "(mi, oi)" arbitrary: mi oi rule: messageDiffLoop.induct)
     (auto simp: Let_def split: option.splits)

lemma messageDiffLoop_outdated:
  "set (snd (messageDiffLoop ours ts (mi, oi))) =
     set oi \<union> {i. \<exists>td od. (i, td) \<in> set ts \<and> Map_get ours i = Some od \<and>
                  md_contentHash od \<noteq> md_contentHash td \<and>
                  effectiveModified td > effectiveModified od}"
  by (induction ours ts "(mi, oi)" arbitrary: mi oi rule: messageDiffLoop.induct)
     (auto simp: Let_def effectiveModified_def split: option.splits)

lemma extraLoop_set:
  "set (extraLoop theirs ks acc) = set acc \<union> {k \<in> set ks. \<not> Map_has theirs k}"
  by (induction theirs ks acc rule: extraLoop.induct) auto


lemma Map_has_digests:
  "Map_has (Map_new (map (\<lambda>d. (md_messageId d, d)) (mf_digests manifest))) mid \<longleftrightarrow> digestFor manifest mid \<noteq> None"
  using Map_get_digests[of manifest mid] by (simp add: Map_has_def Map_get_def)

lemma Map_keys_digests:
  "mid \<in> set (Map_keys (Map_new (map (\<lambda>d. (md_messageId d, d)) (mf_digests manifest)))) \<longleftrightarrow> digestFor manifest mid \<noteq> None"
proof -
  let ?M = "Map_new (map (\<lambda>d. (md_messageId d, d)) (mf_digests manifest))"
  have "mid \<in> fst ` set ?M \<longleftrightarrow> map_of ?M mid \<noteq> None"
    by (simp add: map_of_eq_None_iff)
  then show ?thesis
    using Map_get_digests[of manifest mid] by (simp add: Map_keys_def Map_get_def)
qed

lemma digestFor_mem: "mid \<in> md_messageId ` set (mf_digests manifest) \<longleftrightarrow> digestFor manifest mid \<noteq> None"
  by (auto simp: digestFor_def find_None_iff)


text \<open>
  Claim C2. \<^verbatim>\<open>computeMessageDiff(ourManifest, theirManifest)\<close> returns exactly:
  as \<^verbatim>\<open>missingIds\<close> the IDs in their digests and not in ours; as \<^verbatim>\<open>extraIds\<close> the IDs
  in ours and not in theirs; as \<^verbatim>\<open>outdatedIds\<close> the IDs in both whose content hashes
  differ and whose their-side modification time (creation time as fall-back) is strictly
  greater than ours. An ID in both whose hashes differ but whose their-side time is not
  strictly greater is in none of the three.
\<close>

theorem computeMessageDiff_sets:
  "set (df_missingIds (computeMessageDiff ourManifest theirManifest)) =
     {i. i \<in> md_messageId ` set (mf_digests theirManifest) \<and>
         i \<notin> md_messageId ` set (mf_digests ourManifest)} \<and>
   set (df_extraIds (computeMessageDiff ourManifest theirManifest)) =
     {i. i \<in> md_messageId ` set (mf_digests ourManifest) \<and>
         i \<notin> md_messageId ` set (mf_digests theirManifest)} \<and>
   set (df_outdatedIds (computeMessageDiff ourManifest theirManifest)) =
     {i. \<exists>ours theirs. digestFor ourManifest i = Some ours \<and>
           digestFor theirManifest i = Some theirs \<and>
           md_contentHash ours \<noteq> md_contentHash theirs \<and>
           effectiveModified theirs > effectiveModified ours} \<and>
   (\<forall>i ours theirs.
      digestFor ourManifest i = Some ours \<and> digestFor theirManifest i = Some theirs \<and>
      md_contentHash ours \<noteq> md_contentHash theirs \<and>
      \<not> effectiveModified theirs > effectiveModified ours \<longrightarrow>
      i \<notin> set (df_missingIds (computeMessageDiff ourManifest theirManifest)) \<and>
      i \<notin> set (df_outdatedIds (computeMessageDiff ourManifest theirManifest)) \<and>
      i \<notin> set (df_extraIds (computeMessageDiff ourManifest theirManifest)))"
proof -
  let ?O = "Map_new (map (\<lambda>d. (md_messageId d, d)) (mf_digests ourManifest))"
  let ?T = "Map_new (map (\<lambda>d. (md_messageId d, d)) (mf_digests theirManifest))"
  let ?r = "computeMessageDiff ourManifest theirManifest"
  have mem: "\<And>i td. (i, td) \<in> set ?T \<longleftrightarrow> digestFor theirManifest i = Some td"
    by (simp add: Map_new_mem Map_get_digests)
  have r: "df_missingIds ?r = fst (messageDiffLoop ?O ?T ([], []))"
    "df_outdatedIds ?r = snd (messageDiffLoop ?O ?T ([], []))"
    "df_extraIds ?r = extraLoop ?T (Map_keys ?O) []"
    by (simp_all add: computeMessageDiff_def Let_def split: prod.splits)
  have missing: "set (df_missingIds ?r) =
           {i. i \<in> md_messageId ` set (mf_digests theirManifest) \<and>
               i \<notin> md_messageId ` set (mf_digests ourManifest)}"
    unfolding r messageDiffLoop_missing mem Map_get_digests digestFor_mem by auto
  have extra: "set (df_extraIds ?r) =
           {i. i \<in> md_messageId ` set (mf_digests ourManifest) \<and>
               i \<notin> md_messageId ` set (mf_digests theirManifest)}"
    unfolding r extraLoop_set Map_has_digests Map_keys_digests digestFor_mem by auto
  have outdated: "set (df_outdatedIds ?r) =
           {i. \<exists>ours theirs. digestFor ourManifest i = Some ours \<and>
                 digestFor theirManifest i = Some theirs \<and>
                 md_contentHash ours \<noteq> md_contentHash theirs \<and>
                 effectiveModified theirs > effectiveModified ours}"
    unfolding r messageDiffLoop_outdated mem Map_get_digests by auto
  have none: "i \<notin> set (df_missingIds ?r) \<and> i \<notin> set (df_outdatedIds ?r) \<and>
              i \<notin> set (df_extraIds ?r)"
    if o: "digestFor ourManifest i = Some ours" and t: "digestFor theirManifest i = Some theirs"
      and n: "\<not> effectiveModified theirs > effectiveModified ours" for i ours theirs
  proof (intro conjI)
    show "i \<notin> set (df_missingIds ?r)"
      unfolding missing digestFor_mem using o by simp
    show "i \<notin> set (df_extraIds ?r)"
      unfolding extra digestFor_mem using t by simp
    show "i \<notin> set (df_outdatedIds ?r)"
      unfolding outdated using o t n by simp
  qed
  have last: "\<forall>i ours theirs.
      digestFor ourManifest i = Some ours \<and> digestFor theirManifest i = Some theirs \<and>
      md_contentHash ours \<noteq> md_contentHash theirs \<and>
      \<not> effectiveModified theirs > effectiveModified ours \<longrightarrow>
      i \<notin> set (df_missingIds ?r) \<and> i \<notin> set (df_outdatedIds ?r) \<and>
      i \<notin> set (df_extraIds ?r)"
  proof (intro allI impI)
    fix i ours theirs
    assume a: "digestFor ourManifest i = Some ours \<and> digestFor theirManifest i = Some theirs \<and>
      md_contentHash ours \<noteq> md_contentHash theirs \<and>
      \<not> effectiveModified theirs > effectiveModified ours"
    show "i \<notin> set (df_missingIds ?r) \<and> i \<notin> set (df_outdatedIds ?r) \<and>
      i \<notin> set (df_extraIds ?r)"
      by (rule none[of i ours theirs]) (use a in simp_all)
  qed
  show ?thesis
    by (intro conjI) (rule missing, rule extra, rule outdated, rule last)
qed

theorem computeMessageDiff_sets_witness:
  "digestFor sampleOurManifest ''d'' =
     Some \<lparr> md_messageId = ''d'', md_createdDate = 4000, md_contentHash = ''h4'',
            md_modifiedDate = Some 6000 \<rparr> \<and>
   digestFor sampleTheirManifest ''d'' =
     Some \<lparr> md_messageId = ''d'', md_createdDate = 4000, md_contentHash = ''h4x'',
            md_modifiedDate = Some 5000 \<rparr> \<and>
   ''h4'' \<noteq> ''h4x'' \<and> \<not> (5000::nat) > 6000 \<and>
   ''d'' \<notin> set (df_missingIds (computeMessageDiff sampleOurManifest sampleTheirManifest)) \<and>
   ''d'' \<notin> set (df_outdatedIds (computeMessageDiff sampleOurManifest sampleTheirManifest)) \<and>
   ''d'' \<notin> set (df_extraIds (computeMessageDiff sampleOurManifest sampleTheirManifest)) \<and>
   computeMessageDiff sampleOurManifest sampleTheirManifest =
     \<lparr> df_missingIds = [''b''], df_outdatedIds = [''c''], df_extraIds = [''a''] \<rparr>"
  using computeMessageDiff_sets[of sampleOurManifest sampleTheirManifest]
  by (simp add: computeMessageDiff_def sampleOurManifest_def sampleTheirManifest_def
      digestFor_def effectiveModified_def orNum_def Map_new_def Map_set_def Map_get_def
      Map_has_def Map_keys_def)

subsection \<open>The XOR manifest hash\<close>

lemma xorLoop_char:
  "foldl (\<lambda>acc i. acc[i := acc ! i XOR byteAt h i]) a [0..<n] =
     map (\<lambda>i. if i < n then a ! i XOR byteAt h i else a ! i) [0..<length a]"
proof (induction n)
  case 0
  then show ?case by (simp add: map_nth)
next
  case (Suc n)
  show ?case
    by (rule nth_equalityI) (simp_all add: Suc nth_list_update less_Suc_eq)
qed

lemma xorIntoHash_char:
  "xorIntoHash a h = map (\<lambda>i. if i < 32 then a ! i XOR byteAt h i else a ! i) [0..<length a]"
  unfolding xorIntoHash_def by (rule xorLoop_char)

lemma length_xorIntoHash [simp]: "length (xorIntoHash a h) = length a"
  by (simp add: xorIntoHash_char)

lemma nth_xorIntoHash:
  "i < length a \<Longrightarrow> xorIntoHash a h ! i = (if i < 32 then a ! i XOR byteAt h i else a ! i)"
  by (simp add: xorIntoHash_char)

lemma xorIntoHash_cancel: "xorIntoHash (xorIntoHash a h) h = a"
  by (rule nth_equalityI) (simp_all add: nth_xorIntoHash xor.assoc)

lemma xorIntoHash_commute:
  "xorIntoHash (xorIntoHash a h1) h2 = xorIntoHash (xorIntoHash a h2) h1"
  by (rule nth_equalityI) (simp_all add: nth_xorIntoHash xor.assoc xor.left_commute xor.commute)


lemma Map_has_set: "Map_has (Map_set mp k v) k' \<longleftrightarrow> k' = k \<or> Map_has mp k'"
  by (simp add: Map_has_def Map_set_def update_conv')

lemma Map_get_set_same: "Map_get (Map_set mp k v) k = Some v"
  by (simp add: Map_get_def Map_set_def update_conv')

lemma update_messageMap:
  "pc_messageMap (updateCacheWithMessage_cached sha S m) =
     Map_set (pc_messageMap S) (m_messageId m) m"
  by (simp add: updateCacheWithMessage_cached_def Let_def)

lemma update_hashBytes:
  "pc_manifestHashBytes (updateCacheWithMessage_cached sha S m) =
     (if Map_has (pc_messageMap S) (m_messageId m) then pc_manifestHashBytes S
      else xorIntoHash (pc_manifestHashBytes S) (sha (m_messageId m)))"
  by (simp add: updateCacheWithMessage_cached_def Let_def hashMessageId_def)

lemma recalculate_hashBytes:
  "pc_manifestHashBytes (recalculateTimestamps S) = pc_manifestHashBytes S"
  by (simp add: recalculateTimestamps_def Let_def split: prod.splits)

lemma remove_hashBytes:
  "Map_get (pc_messageMap S) k = Some x \<Longrightarrow>
   pc_manifestHashBytes (removeCacheMessage_cached sha S k) =
     xorIntoHash (pc_manifestHashBytes S) (sha k)"
  by (simp add: removeCacheMessage_cached_def Let_def hashMessageId_def recalculate_hashBytes)

lemma upsert_then_remove:
  assumes "\<not> Map_has (pc_messageMap S) (m_messageId m)"
  shows "pc_manifestHashBytes
           (removeCacheMessage_cached sha (updateCacheWithMessage_cached sha S m) (m_messageId m)) =
         pc_manifestHashBytes S"
proof -
  have "Map_get (pc_messageMap (updateCacheWithMessage_cached sha S m)) (m_messageId m) = Some m"
    by (simp add: update_messageMap Map_get_set_same)
  from remove_hashBytes[OF this] assms show ?thesis
    by (simp add: update_hashBytes xorIntoHash_cancel)
qed

lemma upserts_hashBytes:
  "distinct (map m_messageId ms) \<Longrightarrow>
   pc_manifestHashBytes (foldl (updateCacheWithMessage_cached sha) S ms) =
     fold (\<lambda>m a. xorIntoHash a (sha (m_messageId m)))
       (filter (\<lambda>m. \<not> Map_has (pc_messageMap S) (m_messageId m)) ms)
       (pc_manifestHashBytes S)"
proof (induction ms arbitrary: S)
  case Nil
  then show ?case by simp
next
  case (Cons m ms)
  let ?S = "updateCacheWithMessage_cached sha S m"
  have d: "distinct (map m_messageId ms)"
    using Cons.prems by simp
  have nm: "\<forall>x\<in>set ms. m_messageId x \<noteq> m_messageId m"
    using Cons.prems by (metis distinct.simps(2) image_eqI list.simps(9) set_map)
  have f: "filter (\<lambda>x. \<not> Map_has (pc_messageMap ?S) (m_messageId x)) ms =
           filter (\<lambda>x. \<not> Map_has (pc_messageMap S) (m_messageId x)) ms"
    by (rule filter_cong) (use nm in \<open>simp_all add: update_messageMap Map_has_set\<close>)
  show ?case
    using Cons.IH[OF d, of ?S] by (simp add: f update_hashBytes)
qed

lemma xor_fold_commute:
  "(\<lambda>a. xorIntoHash a (sha (m_messageId x))) \<circ> (\<lambda>a. xorIntoHash a (sha (m_messageId y))) =
   (\<lambda>a. xorIntoHash a (sha (m_messageId y))) \<circ> (\<lambda>a. xorIntoHash a (sha (m_messageId x)))"
  by (rule ext) (simp add: xorIntoHash_commute)

lemma upserts_any_order:
  assumes "distinct (map m_messageId ms)" and "mset ms' = mset ms"
  shows "pc_manifestHashBytes (foldl (updateCacheWithMessage_cached sha) S ms') =
         pc_manifestHashBytes (foldl (updateCacheWithMessage_cached sha) S ms)"
proof -
  have "mset (map m_messageId ms') = mset (map m_messageId ms)"
    using assms(2) by (metis mset_map)
  then have d': "distinct (map m_messageId ms')"
    using assms(1) by (metis mset_eq_imp_distinct_iff)
  let ?P = "\<lambda>m. \<not> Map_has (pc_messageMap S) (m_messageId m)"
  have "mset (filter ?P ms') = mset (filter ?P ms)"
    using assms(2) by simp
  then have "fold (\<lambda>m a. xorIntoHash a (sha (m_messageId m))) (filter ?P ms') =
             fold (\<lambda>m a. xorIntoHash a (sha (m_messageId m))) (filter ?P ms)"
    by (rule fold_multiset_equiv[rotated]) (rule xor_fold_commute)
  then show ?thesis
    by (simp add: upserts_hashBytes[OF assms(1)] upserts_hashBytes[OF d'])
qed

text \<open>
  Claim C3. For every payload-cache state \<open>S\<close> (reachable or not) and every message
  \<open>m\<close> whose ID is not in the message map of \<open>S\<close>, \<^verbatim>\<open>updateCacheWithMessage(m)\<close>
  followed by \<^verbatim>\<open>removeCacheMessage(m.messageId)\<close> leaves \<^verbatim>\<open>manifestHashBytes\<close> as
  it was in \<open>S\<close>; and upserting messages with distinct IDs from the same state gives
  the same \<^verbatim>\<open>manifestHashBytes\<close> in every order.
\<close>

theorem manifest_hash_inverse_and_commutative:
  "(\<not> Map_has (pc_messageMap S) (m_messageId m) \<longrightarrow>
      pc_manifestHashBytes
        (removeCacheMessage_cached sha (updateCacheWithMessage_cached sha S m) (m_messageId m)) =
      pc_manifestHashBytes S) \<and>
   (distinct (map m_messageId ms) \<and> mset ms' = mset ms \<longrightarrow>
      pc_manifestHashBytes (foldl (updateCacheWithMessage_cached sha) S ms') =
      pc_manifestHashBytes (foldl (updateCacheWithMessage_cached sha) S ms))"
  using upsert_then_remove[of S m sha] upserts_any_order[of ms ms' sha S] by blast

theorem manifest_hash_inverse_and_commutative_witness:
  "\<not> Map_has (pc_messageMap sampleCache)
       (m_messageId (createTestMessage ''m2'' ''s1'' ''c1'' ''x'' 2000)) \<and>
   pc_manifestHashBytes
     (removeCacheMessage_cached sampleSha
        (updateCacheWithMessage_cached sampleSha sampleCache
           (createTestMessage ''m2'' ''s1'' ''c1'' ''x'' 2000))
        (m_messageId (createTestMessage ''m2'' ''s1'' ''c1'' ''x'' 2000))) =
   pc_manifestHashBytes sampleCache \<and>
   distinct (map m_messageId [createTestMessage ''m2'' ''s1'' ''c1'' ''x'' 2000,
                              createTestMessage ''m3'' ''s1'' ''c1'' ''x'' 3000]) \<and>
   mset [createTestMessage ''m3'' ''s1'' ''c1'' ''x'' 3000,
         createTestMessage ''m2'' ''s1'' ''c1'' ''x'' 2000] =
   mset [createTestMessage ''m2'' ''s1'' ''c1'' ''x'' 2000,
         createTestMessage ''m3'' ''s1'' ''c1'' ''x'' 3000] \<and>
   pc_manifestHashBytes
     (foldl (updateCacheWithMessage_cached sampleSha) sampleCache
        [createTestMessage ''m3'' ''s1'' ''c1'' ''x'' 3000,
         createTestMessage ''m2'' ''s1'' ''c1'' ''x'' 2000]) =
   pc_manifestHashBytes
     (foldl (updateCacheWithMessage_cached sampleSha) sampleCache
        [createTestMessage ''m2'' ''s1'' ''c1'' ''x'' 2000,
         createTestMessage ''m3'' ''s1'' ''c1'' ''x'' 3000])"
proof -
  let ?m2 = "createTestMessage ''m2'' ''s1'' ''c1'' ''x'' 2000"
  let ?m3 = "createTestMessage ''m3'' ''s1'' ''c1'' ''x'' 3000"
  have h1: "\<not> Map_has (pc_messageMap sampleCache) (m_messageId ?m2)"
    by (simp add: sampleCache_def buildPayloadCache_def Map_new_def Map_set_def Map_has_def
        createTestMessage_def Let_def split: prod.splits)
  have h2: "distinct (map m_messageId [?m2, ?m3])"
    by (simp add: createTestMessage_def)
  have h3: "mset [?m3, ?m2] = mset [?m2, ?m3]"
    by (simp add: add.commute)
  show ?thesis
    using manifest_hash_inverse_and_commutative
            [of sampleCache ?m2 sampleSha "[?m2, ?m3]" "[?m3, ?m2]"]
      h1 h2 h3 by blast
qed

subsection \<open>Assembly of the delta payloads\<close>

lemma nonEmptyReactionDelta_isFinal [simp]:
  "nonEmptyReactionDelta (p\<lparr> dp_isFinal := b \<rparr>) = nonEmptyReactionDelta p"
  by (simp add: nonEmptyReactionDelta_def)

lemma finishPayloads_props:
  assumes S: "chunkPayloadsShape ms"
  shows "oneFinalLast (finishPayloads ms memberDelta peerMapDelta allMessages) \<and>
         reactionsInLastChunk (finishPayloads ms memberDelta peerMapDelta allMessages)"
proof -
  have A: "\<forall>i<length ms. dp_isFinal (ms ! i) = Some False \<and> dp_messageDelta (ms ! i) \<noteq> None \<and>
                (nonEmptyReactionDelta (ms ! i) \<longrightarrow> Suc i = length ms)"
    using S by (simp add: chunkPayloadsShape_def)
  have U: "i = j" if "i < length ms" "j < length ms" "nonEmptyReactionDelta (ms ! i)"
    "nonEmptyReactionDelta (ms ! j)" for i j
  proof -
    have "Suc i = length ms" "Suc j = length ms" using A that by blast+
    then show ?thesis by simp
  qed
  let ?c = "length (mbl_members memberDelta) > 0 \<or> length (pml_added peerMapDelta) > 0 \<or>
            length allMessages = 0"
  consider (trail) "?c" | (mark) "\<not> ?c" "ms \<noteq> []" | (empty) "\<not> ?c" "ms = []" by blast
  then show ?thesis
  proof cases
    case trail
    then obtain fin where f: "finishPayloads ms memberDelta peerMapDelta allMessages = ms @ [fin]"
      "dp_isFinal fin = Some True" "dp_messageDelta fin = None" "\<not> nonEmptyReactionDelta fin"
      by (simp add: finishPayloads_def Let_def nonEmptyReactionDelta_def)
    show ?thesis
      unfolding f(1) oneFinalLast_def reactionsInLastChunk_def
      using A f(2-4) U by (auto simp: nth_append less_Suc_eq)
  next
    case mark
    then have f: "finishPayloads ms memberDelta peerMapDelta allMessages =
        ms[length ms - 1 := (ms ! (length ms - 1))\<lparr> dp_isFinal := Some True \<rparr>]"
      by (simp add: finishPayloads_def Let_def)
    show ?thesis
      unfolding f oneFinalLast_def reactionsInLastChunk_def
      using A mark(2) U by (auto simp: nth_list_update)
  next
    case empty
    then have f: "finishPayloads ms memberDelta peerMapDelta allMessages =
        [\<lparr> dp_messageDelta = None, dp_reactionDelta = None, dp_memberDelta = None,
           dp_peerMapDelta = None, dp_isFinal = Some True \<rparr>]"
      by (simp add: finishPayloads_def Let_def)
    show ?thesis
      unfolding f oneFinalLast_def reactionsInLastChunk_def
      by (simp add: nonEmptyReactionDelta_def)
  qed
qed

lemma messageChunkPayloads_shape:
  "chunkPayloadsShape
     (messageChunkPayloads spaceId channelId messageDiff messageDelta reactionDelta chunks)"
  unfolding chunkPayloadsShape_def
  by (auto simp: messageChunkPayloads_def Let_def nonEmptyReactionDelta_def split: if_splits)

lemma chunkPayloadsShape_Nil: "chunkPayloadsShape []"
  by (simp add: chunkPayloadsShape_def)

lemma chunkPayloadsShape_if:
  "chunkPayloadsShape
     (if c then messageChunkPayloads spaceId channelId messageDiff messageDelta reactionDelta chunks
      else [])"
  by (simp add: messageChunkPayloads_shape chunkPayloadsShape_Nil)

lemma buildSyncDelta_cached_props:
  "oneFinalLast (buildSyncDelta_cached sha sz cache tombstones spaceId channelId theirManifest
     theirMemberDigests theirPeerIds ourPeerEntries) \<and>
   reactionsInLastChunk (buildSyncDelta_cached sha sz cache tombstones spaceId channelId
     theirManifest theirMemberDigests theirPeerIds ourPeerEntries)"
  unfolding buildSyncDelta_cached_def Let_def
  by (rule finishPayloads_props) (rule chunkPayloadsShape_if)

text \<open>The call returns whenever the cache exists, and fails only with a storage error.\<close>

lemma buildSyncDelta_returns_when_cached:
  "Map_get (sv_payloadCache svc) (getCacheKey spaceId channelId) = Some cache \<Longrightarrow>
   buildSyncDelta ad sha sz svc spaceId channelId theirManifest theirMemberDigests theirPeerIds
     ourPeerEntries =
   Inr (buildSyncDelta_cached sha sz cache (sv_tombstones svc) spaceId channelId theirManifest
          theirMemberDigests theirPeerIds ourPeerEntries, svc)"
  by (simp add: buildSyncDelta_def getPayloadCache_def)

lemma buildSyncDelta_fails_only_on_storage:
  "buildSyncDelta ad sha sz svc spaceId channelId theirManifest theirMemberDigests theirPeerIds
     ourPeerEntries = Inl e \<Longrightarrow>
   getChannelMessages ad svc spaceId channelId = Inl e \<or>
   ad_getSpaceMembers ad spaceId (sv_storage svc) = Inl e"
  by (auto simp: buildSyncDelta_def getPayloadCache_def Let_def split: option.splits sum.splits)

text \<open>
  Claim C1. For every call of \<^verbatim>\<open>buildSyncDelta\<close> that returns (any manifest, member
  digests and peer IDs of the other side, any peer entries of ours, any service state and
  so any cached local state), the returned sequence has exactly one payload with
  \<^verbatim>\<open>isFinal = true\<close>, which is the last element, and a non-empty reaction delta
  appears in at most one payload, the last message chunk. The call returns unless the
  storage rejects the initial load of the cache.
\<close>

theorem buildSyncDelta_final_and_reactions:
  "buildSyncDelta ad sha sz svc spaceId channelId theirManifest theirMemberDigests theirPeerIds
     ourPeerEntries = Inr (payloads, svc') \<Longrightarrow>
   oneFinalLast payloads \<and> reactionsInLastChunk payloads"
  using buildSyncDelta_cached_props
  by (auto simp: buildSyncDelta_def split: sum.splits prod.splits)

lemma createMessageDigest_sel [simp]:
  "md_messageId (createMessageDigest sha m) = m_messageId m"
  "md_createdDate (createMessageDigest sha m) = m_createdDate m"
  by (simp_all add: createMessageDigest_def)

lemma createMemberDigest_sel [simp]:
  "mbd_address (createMemberDigest sha m) = sm_address m"
  by (simp add: createMemberDigest_def computeMemberHash_def)

lemma buildSyncDelta_sample:
  "\<exists>svc'. buildSyncDelta mockStorage sampleSha sizeMiB (newSyncService sampleStorage) ''s1'' ''c1''
      emptyManifest [] [] [] = Inr (samplePayloads, svc')"
  by (simp add: buildSyncDelta_def getPayloadCache_def getChannelMessages_def mockStorage_def
      newSyncService_def sampleStorage_def Map_get_def Map_set_def Map_new_def Map_has_def
      Map_keys_def Map_values_def Map_size_def
      buildPayloadCache_def Let_def getCacheKey_def buildSyncDelta_cached_def getManifest_def
      getMemberDigests_def computeMessageDiff_def computeMemberDiff_def computePeerDiff_def
      buildMessageDelta_def buildReactionDelta_def buildMemberDelta_def lookupAll_def
      List.map_filter_def emptyManifest_def
      messageChunkPayloads_def finishPayloads_def chunkMessages_def sizeMiB_def MAX_CHUNK_SIZE_def
      sampleReactedMessage_def createTestMessage_def createTestMember_def samplePayloads_def)

theorem buildSyncDelta_final_and_reactions_witness:
  "(\<exists>svc'. buildSyncDelta mockStorage sampleSha sizeMiB (newSyncService sampleStorage)
             ''s1'' ''c1'' emptyManifest [] [] [] = Inr (samplePayloads, svc')) \<and>
   oneFinalLast samplePayloads \<and> reactionsInLastChunk samplePayloads \<and>
   nonEmptyReactionDelta (samplePayloads ! 0)"
proof -
  obtain svc' where h:
    "buildSyncDelta mockStorage sampleSha sizeMiB (newSyncService sampleStorage)
       ''s1'' ''c1'' emptyManifest [] [] [] = Inr (samplePayloads, svc')"
    using buildSyncDelta_sample by blast
  have r: "nonEmptyReactionDelta (samplePayloads ! 0)"
    by (simp add: samplePayloads_def nonEmptyReactionDelta_def)
  show ?thesis
    using h buildSyncDelta_final_and_reactions[OF h] r by blast
qed

subsection \<open>Boundary timestamps\<close>

text \<open>
  Claim C6 says that in every reachable cache state \<^verbatim>\<open>oldestTimestamp\<close> is the minimum
  creation date of the cached messages. The code does not keep this: a cache built from
  zero messages has \<^verbatim>\<open>oldestTimestamp = 0\<close>, and the test
  \<^verbatim>\<open>message.createdDate < cached.oldestTimestamp\<close> of \<^verbatim>\<open>updateCacheWithMessage\<close> is
  then false for every message. After the first upsert of a message created at 1000 the
  cache holds exactly that message, \<^verbatim>\<open>newestTimestamp\<close> is 1000 and
  \<^verbatim>\<open>oldestTimestamp\<close> is still 0.
\<close>

theorem oldest_timestamp_after_first_upsert:
  "pc_oldestTimestamp
     (updateCacheWithMessage_cached sampleSha (buildPayloadCache sampleSha ''s1'' ''c1'' [] [])
        (createTestMessage ''m1'' ''s1'' ''c1'' ''Hello'' 1000)) = 0 \<and>
   pc_newestTimestamp
     (updateCacheWithMessage_cached sampleSha (buildPayloadCache sampleSha ''s1'' ''c1'' [] [])
        (createTestMessage ''m1'' ''s1'' ''c1'' ''Hello'' 1000)) = 1000 \<and>
   map m_createdDate
     (Map_values (pc_messageMap
        (updateCacheWithMessage_cached sampleSha (buildPayloadCache sampleSha ''s1'' ''c1'' [] [])
           (createTestMessage ''m1'' ''s1'' ''c1'' ''Hello'' 1000)))) = [1000]"
  by (simp add: updateCacheWithMessage_cached_def buildPayloadCache_def Let_def Map_new_def
      Map_set_def Map_has_def Map_values_def createTestMessage_def)

subsection \<open>Content hash of an unknown variant\<close>

text \<open>
  Claim C4 says that \<^verbatim>\<open>computeContentHash\<close> fails with \<^verbatim>\<open>UnsupportedContent\<close> on a
  content tag outside the known variants. It does not: on the tag \<^verbatim>\<open>poll\<close> it returns
  the hash of \<^verbatim>\<open>sender-address:poll\<close>.
\<close>

theorem unknown_content_counterexample:
  "contentType (m_content pollMessage) \<notin> set knownContentTypes \<and>
   computeContentHash sampleSha pollMessage = Inr (computeHash sampleSha ''sender-address:poll'') \<and>
   computeContentHash sampleSha pollMessage \<noteq> Inl UnsupportedContent"
  by (simp add: pollMessage_def createTestMessage_def computeContentHash_def knownContentTypes_def)

text \<open>
  Claim C4, amended. For every message whose content tag is not one of the known
  variants, \<^verbatim>\<open>computeContentHash\<close> raises no error and returns the hash of the
  canonical string \<^verbatim>\<open><senderId>:<type>\<close>, with nothing appended.
\<close>

theorem unknown_content_hashes_sender_and_type:
  "contentType (m_content message) \<notin> set knownContentTypes \<Longrightarrow>
   computeContentHash sha message =
     Inr (computeHash sha (contentSenderId (m_content message) @ '':'' @
                           contentType (m_content message)))"
  by (cases "m_content message") (simp_all add: computeContentHash_def knownContentTypes_def)

theorem unknown_content_hashes_sender_and_type_witness:
  "contentType (m_content pollMessage) \<notin> set knownContentTypes \<and>
   computeContentHash sampleSha pollMessage =
     Inr (computeHash sampleSha (contentSenderId (m_content pollMessage) @ '':'' @
                                 contentType (m_content pollMessage)))"
proof -
  have h: "contentType (m_content pollMessage) \<notin> set knownContentTypes"
    by (simp add: pollMessage_def createTestMessage_def knownContentTypes_def)
  show ?thesis
    using h unknown_content_hashes_sender_and_type[OF h, of sampleSha] by simp
qed

subsection \<open>Session clean-up on the final delta\<close>

text \<open>
  Claim C5 says that applying a final delta deletes the sync session of the space the
  delta belongs to. \<^verbatim>\<open>applySyncDelta\<close> takes the space from the message delta or the
  member delta only. After \<^verbatim>\<open>buildSyncRequest\<close> has opened a session for space \<open>s1\<close>,
  applying the empty final payload, or a final payload that carries only a peer-map
  delta of space \<open>s1\<close>, returns without error and leaves the service, and so the
  session, as it was.
\<close>

theorem final_delta_keeps_session:
  "\<exists>req svc.
     buildSyncRequest mockStorage sampleSha 5000 (newSyncService sampleStorage) ''s1'' ''c1''
       ''inbox1'' = Inr (req, svc) \<and>
     Map_has (sv_sessions svc) ''s1'' \<and>
     applySyncDelta mockStorage svc emptyFinalPayload = (None, svc) \<and>
     applySyncDelta mockStorage svc peerOnlyFinalPayload = (None, svc)"
  by (simp add: buildSyncRequest_def getPayloadCache_def getChannelMessages_def mockStorage_def
      newSyncService_def Map_get_def Map_set_def Map_has_def getCacheKey_def Let_def
      applySyncDelta_def applyOptional_def emptyFinalPayload_def peerOnlyFinalPayload_def
      deltaSpaceId_def truthy_def)

subsection \<open>Deletions without message chunks\<close>

lemma lookupAll_Nil [simp]: "lookupAll m [] = []"
  by (simp add: lookupAll_def List.map_filter_def)

lemma finishPayloads_no_messages:
  "\<exists>p. finishPayloads [] memberDelta peerMapDelta [] = [p] \<and> dp_messageDelta p = None"
  by (simp add: finishPayloads_def Let_def)

lemma buildSyncDelta_cached_no_chunks:
  assumes "df_extraIds (computeMessageDiff (getManifest sha cache) theirManifest) = []"
    and "df_outdatedIds (computeMessageDiff (getManifest sha cache) theirManifest) = []"
  shows "\<exists>p. buildSyncDelta_cached sha sz cache tombstones spaceId channelId theirManifest
               theirMemberDigests theirPeerIds ourPeerEntries = [p] \<and>
             dp_messageDelta p = None"
  unfolding buildSyncDelta_cached_def Let_def
  using finishPayloads_no_messages by (simp add: buildMessageDelta_def assms)

text \<open>
  Claim C9. Whenever the message diff between our cached manifest and their manifest has
  no extra and no outdated IDs, \<^verbatim>\<open>buildSyncDelta\<close> returns a single payload without a
  message delta, so no returned payload carries any \<^verbatim>\<open>deletedMessageIds\<close>, whatever
  tombstones the service holds: deletions are not propagated in that case.
\<close>

theorem no_message_chunks_no_deletions:
  assumes "getPayloadCache ad sha svc spaceId channelId = Inr (cache, svc1)"
    and "df_extraIds (computeMessageDiff (getManifest sha cache) theirManifest) = []"
    and "df_outdatedIds (computeMessageDiff (getManifest sha cache) theirManifest) = []"
  shows "\<exists>p. buildSyncDelta ad sha sz svc spaceId channelId theirManifest theirMemberDigests
               theirPeerIds ourPeerEntries = Inr ([p], svc1) \<and>
             dp_messageDelta p = None \<and> deletedIdsOf p = []"
proof -
  obtain p where p:
    "buildSyncDelta_cached sha sz cache (sv_tombstones svc1) spaceId channelId theirManifest
       theirMemberDigests theirPeerIds ourPeerEntries = [p]" "dp_messageDelta p = None"
    using buildSyncDelta_cached_no_chunks[OF assms(2,3)] by blast
  have "buildSyncDelta ad sha sz svc spaceId channelId theirManifest theirMemberDigests
          theirPeerIds ourPeerEntries = Inr ([p], svc1)"
    by (simp add: buildSyncDelta_def assms(1) p(1))
  then show ?thesis
    using p(2) by (auto simp: deletedIdsOf_def)
qed

lemma tombstoneService_cache:
  "getPayloadCache mockStorage sampleSha tombstoneService ''s1'' ''c1'' =
     Inr (buildPayloadCache sampleSha ''s1'' ''c1'' [] [],
          tombstoneService\<lparr> sv_payloadCache :=
            [(''s1:c1'', buildPayloadCache sampleSha ''s1'' ''c1'' [] [])] \<rparr>)"
  by (simp add: getPayloadCache_def getChannelMessages_def mockStorage_def tombstoneService_def
      addTombstone_def newSyncService_def Map_get_def Map_set_def getCacheKey_def Let_def)

lemma tombstoneService_diff:
  "computeMessageDiff (getManifest sampleSha (buildPayloadCache sampleSha ''s1'' ''c1'' [] []))
     manifestWithM1 =
   \<lparr> df_missingIds = [''m1''], df_outdatedIds = [], df_extraIds = [] \<rparr>"
  by (simp add: computeMessageDiff_def getManifest_def buildPayloadCache_def manifestWithM1_def
      Map_new_def Map_set_def Map_get_def Map_has_def Map_keys_def Map_values_def Let_def)

theorem no_message_chunks_no_deletions_witness:
  "map ts_messageId
     (filter (\<lambda>t. ts_spaceId t = ''s1'' \<and> ts_channelId t = ''c1'')
        (sv_tombstones tombstoneService)) = [''m1''] \<and>
   (\<exists>cache svc1 p.
      getPayloadCache mockStorage sampleSha tombstoneService ''s1'' ''c1'' = Inr (cache, svc1) \<and>
      df_extraIds (computeMessageDiff (getManifest sampleSha cache) manifestWithM1) = [] \<and>
      df_outdatedIds (computeMessageDiff (getManifest sampleSha cache) manifestWithM1) = [] \<and>
      buildSyncDelta mockStorage sampleSha sizeMiB tombstoneService ''s1'' ''c1'' manifestWithM1
        [] [] [] = Inr ([p], svc1) \<and>
      dp_messageDelta p = None \<and> deletedIdsOf p = [])"
proof -
  have t: "map ts_messageId
     (filter (\<lambda>t. ts_spaceId t = ''s1'' \<and> ts_channelId t = ''c1'')
        (sv_tombstones tombstoneService)) = [''m1'']"
    by (simp add: tombstoneService_def addTombstone_def newSyncService_def)
  have e: "df_extraIds (computeMessageDiff
             (getManifest sampleSha (buildPayloadCache sampleSha ''s1'' ''c1'' [] []))
             manifestWithM1) = []"
    and d: "df_outdatedIds (computeMessageDiff
             (getManifest sampleSha (buildPayloadCache sampleSha ''s1'' ''c1'' [] []))
             manifestWithM1) = []"
    by (simp_all add: tombstoneService_diff)
  show ?thesis
    using t e d tombstoneService_cache
      no_message_chunks_no_deletions[OF tombstoneService_cache e d, of sizeMiB "[]" "[]" "[]"]
    by blast
qed

subsection \<open>Reaction removals\<close>

lemma finishPayloads_removesNoReactions:
  assumes "\<forall>p\<in>set ms. removesNoReactions p"
  shows "\<forall>p\<in>set (finishPayloads ms memberDelta peerMapDelta allMessages). removesNoReactions p"
proof -
  have u: "\<forall>p\<in>set (ms[i := (ms ! i)\<lparr> dp_isFinal := b \<rparr>]). removesNoReactions p" for i b
  proof
    fix p assume "p \<in> set (ms[i := (ms ! i)\<lparr> dp_isFinal := b \<rparr>])"
    then have "p = (ms ! i)\<lparr> dp_isFinal := b \<rparr> \<or> p \<in> set ms"
      using set_update_subset_insert[of ms i] by auto
    then show "removesNoReactions p"
    proof
      assume p: "p = (ms ! i)\<lparr> dp_isFinal := b \<rparr>"
      show ?thesis
      proof (cases "i < length ms")
        case True
        then have "removesNoReactions (ms ! i)" using assms by simp
        then show ?thesis by (simp add: p removesNoReactions_def)
      next
        case False
        then have "ms[i := (ms ! i)\<lparr> dp_isFinal := b \<rparr>] = ms"
          by (simp add: list_update_beyond)
        with \<open>p \<in> set (ms[i := (ms ! i)\<lparr> dp_isFinal := b \<rparr>])\<close> assms show ?thesis by simp
      qed
    next
      assume "p \<in> set ms" then show ?thesis using assms by simp
    qed
  qed
  show ?thesis
    using assms u by (auto simp: finishPayloads_def Let_def removesNoReactions_def)
qed

lemma messageChunkPayloads_removesNoReactions:
  "rdl_removed reactionDelta = [] \<Longrightarrow>
   \<forall>p\<in>set (messageChunkPayloads spaceId channelId messageDiff messageDelta reactionDelta chunks).
     removesNoReactions p"
  by (auto simp: messageChunkPayloads_def Let_def removesNoReactions_def)

lemma chunkPayloads_if_removesNoReactions:
  "rdl_removed reactionDelta = [] \<Longrightarrow>
   \<forall>p\<in>set (if c then messageChunkPayloads spaceId channelId messageDiff messageDelta
                        reactionDelta chunks
                 else []). removesNoReactions p"
  using messageChunkPayloads_removesNoReactions[of reactionDelta] by (cases c) simp_all

lemma buildReactionDelta_removed:
  "rdl_removed (buildReactionDelta spaceId channelId messageMap messageIds) = []"
  by (simp add: buildReactionDelta_def)

lemma buildSyncDelta_cached_removesNoReactions:
  "\<forall>p\<in>set (buildSyncDelta_cached sha sz cache tombstones spaceId channelId theirManifest
     theirMemberDigests theirPeerIds ourPeerEntries). removesNoReactions p"
  unfolding buildSyncDelta_cached_def Let_def
  by (rule finishPayloads_removesNoReactions)
     (rule chunkPayloads_if_removesNoReactions, rule buildReactionDelta_removed)

text \<open>
  Claim C10. For every input, \<^verbatim>\<open>buildReactionDelta\<close> returns a delta whose
  \<^verbatim>\<open>removed\<close> list is empty; so no payload returned by \<^verbatim>\<open>buildSyncDelta\<close> asks the
  receiver to remove reaction members.
\<close>

theorem reaction_removals_never_sent:
  "rdl_removed (buildReactionDelta spaceId channelId messageMap messageIds) = [] \<and>
   (buildSyncDelta ad sha sz svc spaceId' channelId' theirManifest theirMemberDigests theirPeerIds
      ourPeerEntries = Inr (payloads, svc') \<longrightarrow>
    (\<forall>p\<in>set payloads. removesNoReactions p))"
  using buildSyncDelta_cached_removesNoReactions
  by (auto simp: buildReactionDelta_removed buildSyncDelta_def split: sum.splits prod.splits)



text \<open>The removal loop of \<^verbatim>\<open>applyReactionDelta\<close> does act on a removal it receives.\<close>

lemma removeReaction_sample:
  "m_reactions (removeReaction \<lparr> rc_messageId = ''m1'', rc_emojiId = ''thumbsup'',
                                 rc_memberIds = [''addr1''] \<rparr> sampleReactedMessage) = []"
  by (simp add: removeReaction_def sampleReactedMessage_def createTestMessage_def Let_def)

theorem reaction_removals_never_sent_witness:
  "(\<exists>svc'. buildSyncDelta mockStorage sampleSha sizeMiB (newSyncService sampleStorage)
             ''s1'' ''c1'' emptyManifest [] [] [] = Inr (samplePayloads, svc')) \<and>
   samplePayloads ! 0 \<in> set samplePayloads \<and>
   dp_reactionDelta (samplePayloads ! 0) \<noteq> None \<and>
   removesNoReactions (samplePayloads ! 0)"
proof -
  obtain svc' where h:
    "buildSyncDelta mockStorage sampleSha sizeMiB (newSyncService sampleStorage)
       ''s1'' ''c1'' emptyManifest [] [] [] = Inr (samplePayloads, svc')"
    using buildSyncDelta_sample by blast
  have m: "samplePayloads ! 0 \<in> set samplePayloads"
    and r: "dp_reactionDelta (samplePayloads ! 0) \<noteq> None"
    by (simp_all add: samplePayloads_def)
  from reaction_removals_never_sent[of "''s1''" "''c1''" "[]" "[]" mockStorage sampleSha sizeMiB
        "newSyncService sampleStorage" "''s1''" "''c1''" emptyManifest "[]" "[]" "[]"
        samplePayloads svc'] h m
  have "removesNoReactions (samplePayloads ! 0)" by blast
  with h m r show ?thesis by blast
qed

end
